theory Spec2Isabelle
  imports Main "HOL-Library.Word" "HOL-Library.Signed_Division"
begin

unbundle bit_operations_syntax

section \<open>Bytes, big-endian integers, addresses, durations\<close>

type_synonym byte = "8 word"
type_synonym bytes = "byte list"

text \<open>
  A Go string is a sequence of bytes; \<open>[]byte(s)\<close> and \<open>string(b)\<close> copy it unchanged.
\<close>

type_synonym gostring = "byte list"

text \<open>
  A run-time panic of the Go program ends the process; it is a value of the model.
\<close>

datatype panic =
    NilDereference
  | IndexOutOfRange
  | TypeAssertion
  | PanicIPv6

text \<open>The \<open>error\<close> values the program returns.\<close>

datatype error =
    EOF
  | ErrUnexpectedEOF
  | UnableToReadCookie
  | InvalidCookie
  | InvalidOptionLength
  | UnableToParseOption byte
  | OptionsNotTerminated
  | OptionTooLarge
  | InvalidBootpOperation
  | InvalidMacLength
  | InvalidIPv4Address
  | NoPktInfo
  | ReadError

text \<open>\<open>binary.BigEndian\<close> on \<open>uint16\<close> and \<open>uint32\<close>.\<close>

definition be16 :: "16 word \<Rightarrow> bytes" where
  "be16 w = [ucast (drop_bit 8 w), ucast w]"

definition be32 :: "32 word \<Rightarrow> bytes" where
  "be32 w = [ucast (drop_bit 24 w), ucast (drop_bit 16 w), ucast (drop_bit 8 w), ucast w]"

definition from_be16 :: "byte \<Rightarrow> byte \<Rightarrow> 16 word" where
  "from_be16 a b = push_bit 8 (ucast a) OR ucast b"

definition from_be32 :: "byte \<Rightarrow> byte \<Rightarrow> byte \<Rightarrow> byte \<Rightarrow> 32 word" where
  "from_be32 a b c d =
     push_bit 24 (ucast a) OR push_bit 16 (ucast b) OR push_bit 8 (ucast c) OR ucast d"

text \<open>
  \<open>data[lo:hi]\<close> on a slice, for \<open>lo \<le> hi \<le> len(data)\<close> (the callers check it).
\<close>

definition slice :: "'a list \<Rightarrow> nat \<Rightarrow> nat \<Rightarrow> 'a list" where
  "slice xs lo hi = take (hi - lo) (drop lo xs)"

text \<open>
  \<open>net.IP\<close> is a byte slice of length 4 or 16; the nil slice is the empty list.
  \<open>net.IPv4\<close>, \<open>IP.To4\<close> and \<open>IP.Equal\<close> are those of the Go standard library.
\<close>

type_synonym IP = "byte list"

definition v4InV6Prefix :: bytes where
  "v4InV6Prefix = [0, 0, 0, 0, 0, 0, 0, 0, 0, 0, 0xff, 0xff]"

definition IPv4 :: "byte \<Rightarrow> byte \<Rightarrow> byte \<Rightarrow> byte \<Rightarrow> IP" where
  "IPv4 a b c d = v4InV6Prefix @ [a, b, c, d]"

definition IPv4zero :: IP where
  "IPv4zero = IPv4 0 0 0 0"

definition To4 :: "IP \<Rightarrow> IP" where
  "To4 ip =
     (if length ip = 4 then ip
      else if length ip = 16 \<and> take 12 ip = v4InV6Prefix then drop 12 ip
      else [])"

definition Equal :: "IP \<Rightarrow> IP \<Rightarrow> bool" where
  "Equal ip x =
     (if length ip = length x then ip = x
      else if length ip = 4 \<and> length x = 16 then take 12 x = v4InV6Prefix \<and> ip = drop 12 x
      else if length ip = 16 \<and> length x = 4 then take 12 ip = v4InV6Prefix \<and> drop 12 ip = x
      else False)"

text \<open>
  \<open>time.Duration\<close> is a signed count of nanoseconds; \<open>time.Time\<close> is an instant, here
  the nanoseconds since the zero instant \<open>time.Time{}\<close>. \<open>/\<close> on Go integers truncates
  towards zero (\<open>sdiv\<close>); a conversion to \<open>uint16\<close> or \<open>uint32\<close> keeps the low bits
  (\<open>word_of_int\<close>).
\<close>

type_synonym Duration = int
type_synonym Time = int

definition Second :: Duration where
  "Second = 1000000000"

definition Before :: "Time \<Rightarrow> Time \<Rightarrow> bool" where
  "Before t u = (t < u)"

definition zeroTime :: Time where
  "zeroTime = 0"

section \<open>DHCP options\<close>

type_synonym DHCPOptionCode = byte

definition PadOptionCode :: DHCPOptionCode where "PadOptionCode = 0"
definition SubnetMaskOptionCode :: DHCPOptionCode where "SubnetMaskOptionCode = 1"
definition TimeOffsetOptionCode :: DHCPOptionCode where "TimeOffsetOptionCode = 2"
definition RouterOptionCode :: DHCPOptionCode where "RouterOptionCode = 3"
definition TimeServerOptionCode :: DHCPOptionCode where "TimeServerOptionCode = 4"
definition NameServerOptionCode :: DHCPOptionCode where "NameServerOptionCode = 5"
definition DomainNameServerOptionCode :: DHCPOptionCode where "DomainNameServerOptionCode = 6"
definition HostNameOptionCode :: DHCPOptionCode where "HostNameOptionCode = 12"
definition DomainNameOptionCode :: DHCPOptionCode where "DomainNameOptionCode = 15"
definition IPForwardingEnableOptionCode :: DHCPOptionCode where "IPForwardingEnableOptionCode = 19"
definition InterfaceMTUOptionCode :: DHCPOptionCode where "InterfaceMTUOptionCode = 26"
definition StaticRouteOptionCode :: DHCPOptionCode where "StaticRouteOptionCode = 33"
definition NTPServerOptionCode :: DHCPOptionCode where "NTPServerOptionCode = 42"
definition RequestIPAddressOptionCode :: DHCPOptionCode where "RequestIPAddressOptionCode = 50"
definition IPAddressLeaseTimeOptionCode :: DHCPOptionCode where "IPAddressLeaseTimeOptionCode = 51"
definition OptionOverloadOptionCode :: DHCPOptionCode where "OptionOverloadOptionCode = 52"
definition DHCPMessageTypeOptionCode :: DHCPOptionCode where "DHCPMessageTypeOptionCode = 53"
definition ServerIdentifierOptionCode :: DHCPOptionCode where "ServerIdentifierOptionCode = 54"
definition ParameterRequestListOptionCode :: DHCPOptionCode where "ParameterRequestListOptionCode = 55"
definition MessageOptionCode :: DHCPOptionCode where "MessageOptionCode = 56"
definition MaximumDHCPMessageSizeOptionCode :: DHCPOptionCode where "MaximumDHCPMessageSizeOptionCode = 57"
definition RenewalTimeValueOptionCode :: DHCPOptionCode where "RenewalTimeValueOptionCode = 58"
definition RebindingTimeValueOptionCode :: DHCPOptionCode where "RebindingTimeValueOptionCode = 59"
definition VendorClassIdentifierOptionCode :: DHCPOptionCode where "VendorClassIdentifierOptionCode = 60"
definition ClientIdentifierOptionCode :: DHCPOptionCode where "ClientIdentifierOptionCode = 61"
definition EndOptionCode :: DHCPOptionCode where "EndOptionCode = 255"

text \<open>
  The interface \<open>DHCPOption\<close> and its five implementations. \<open>DHCPOptions\<close> is a Go map;
  the order in which \<open>range\<close> visits its keys is chosen by the run time, so a function
  that ranges over it takes that order as an argument.
\<close>

datatype DHCPOption =
    IPDHCPOption "IP list"
  | Uint8DHCPOption "byte list"
  | Uint16DHCPOption "16 word list"
  | StringDHCPOption gostring
  | DurationDHCPOption Duration

type_synonym DHCPOptions = "DHCPOptionCode \<rightharpoonup> DHCPOption"

text \<open>The kind of option \<open>decodeOption\<close> allocates for a code (its \<open>switch\<close>).\<close>

datatype OptionKind = KindIP | KindDuration | KindString | KindUint8 | KindUint16

definition optionKind :: "DHCPOptionCode \<Rightarrow> OptionKind option" where
  "optionKind code =
     (if code \<in> {SubnetMaskOptionCode, RouterOptionCode, TimeServerOptionCode,
          NameServerOptionCode, DomainNameServerOptionCode, StaticRouteOptionCode,
          NTPServerOptionCode, RequestIPAddressOptionCode, ServerIdentifierOptionCode}
      then Some KindIP
      else if code \<in> {TimeOffsetOptionCode, IPAddressLeaseTimeOptionCode,
          RenewalTimeValueOptionCode, RebindingTimeValueOptionCode}
      then Some KindDuration
      else if code \<in> {HostNameOptionCode, DomainNameOptionCode, MessageOptionCode,
          VendorClassIdentifierOptionCode}
      then Some KindString
      else if code \<in> {IPForwardingEnableOptionCode, OptionOverloadOptionCode,
          DHCPMessageTypeOptionCode, ParameterRequestListOptionCode, ClientIdentifierOptionCode}
      then Some KindUint8
      else if code \<in> {InterfaceMTUOptionCode, MaximumDHCPMessageSizeOptionCode}
      then Some KindUint16
      else None)"

text \<open>
  \<open>IPDHCPOption.Decode\<close>: the length must be a multiple of 4; entry \<open>i\<close> is \<open>net.IPv4\<close>
  of the four bytes at \<open>4 * i\<close>.
\<close>

definition IPDHCPOption_Decode :: "bytes \<Rightarrow> DHCPOption option" where
  "IPDHCPOption_Decode data =
     (if length data mod 4 \<noteq> 0 then None
      else Some (IPDHCPOption
        (map (\<lambda>i. IPv4 (data ! (i * 4)) (data ! (i * 4 + 1)) (data ! (i * 4 + 2)) (data ! (i * 4 + 3)))
          [0 ..< length data div 4])))"

text \<open>\<open>Uint8DHCPOption.Decode\<close> copies the bytes and never fails.\<close>

definition Uint8DHCPOption_Decode :: "bytes \<Rightarrow> DHCPOption option" where
  "Uint8DHCPOption_Decode data = Some (Uint8DHCPOption data)"

text \<open>
  \<open>Uint16DHCPOption.Decode\<close>: the length must be even; \<open>binary.Read\<close> fills the slice of
  \<open>len(data)/2\<close> entries from consecutive big-endian pairs.
\<close>

definition Uint16DHCPOption_Decode :: "bytes \<Rightarrow> DHCPOption option" where
  "Uint16DHCPOption_Decode data =
     (if length data mod 2 \<noteq> 0 then None
      else Some (Uint16DHCPOption
        (map (\<lambda>i. from_be16 (data ! (i * 2)) (data ! (i * 2 + 1))) [0 ..< length data div 2])))"

definition StringDHCPOption_Decode :: "bytes \<Rightarrow> DHCPOption option" where
  "StringDHCPOption_Decode data = Some (StringDHCPOption data)"

text \<open>\<open>DurationDHCPOption.Decode\<close>: exactly four bytes, a big-endian count of seconds.\<close>

definition DurationDHCPOption_Decode :: "bytes \<Rightarrow> DHCPOption option" where
  "DurationDHCPOption_Decode data =
     (if length data \<noteq> 4 then None
      else Some (DurationDHCPOption
        (uint (from_be32 (data ! 0) (data ! 1) (data ! 2) (data ! 3)) * Second)))"

text \<open>
  \<open>decodeOption\<close>: \<open>Inr None\<close> is the \<open>(nil, nil)\<close> of an unknown code, \<open>Inl\<close> the error
  of a payload the option's \<open>Decode\<close> refuses.
\<close>

definition decodeOption :: "DHCPOptionCode \<Rightarrow> bytes \<Rightarrow> error + DHCPOption option" where
  "decodeOption code data =
     (case optionKind code of
        None \<Rightarrow> Inr None
      | Some kind \<Rightarrow>
          (case (case kind of
                   KindIP \<Rightarrow> IPDHCPOption_Decode data
                 | KindDuration \<Rightarrow> DurationDHCPOption_Decode data
                 | KindString \<Rightarrow> StringDHCPOption_Decode data
                 | KindUint8 \<Rightarrow> Uint8DHCPOption_Decode data
                 | KindUint16 \<Rightarrow> Uint16DHCPOption_Decode data) of
             Some opt \<Rightarrow> Inr (Some opt)
           | None \<Rightarrow> Inl (UnableToParseOption code)))"

text \<open>
  \<open>DecodeDHCPOptions\<close>: the loop over the index \<open>i\<close>. A code in the last byte makes
  \<open>data[i]\<close> after \<open>i++\<close> read out of range, which panics.
\<close>

function DecodeDHCPOptions_loop :: "bytes \<Rightarrow> nat \<Rightarrow> DHCPOptions \<Rightarrow> panic + (error + DHCPOptions)" where
  "DecodeDHCPOptions_loop data i output =
     (if i < length data then
        (let code = data ! i in
         if code = PadOptionCode then DecodeDHCPOptions_loop data (i + 1) output
         else if code = EndOptionCode then Inr (Inr output)
         else
           (let j = i + 1 in
            if \<not> j < length data then Inl IndexOutOfRange
            else
              (let len = unat (data ! j) in
               if len > length data - j - 1 then Inr (Inl InvalidOptionLength)
               else
                 (case decodeOption code (slice data (j + 1) (j + 1 + len)) of
                    Inl err \<Rightarrow> Inr (Inl err)
                  | Inr None \<Rightarrow> DecodeDHCPOptions_loop data (j + len + 1) output
                  | Inr (Some option) \<Rightarrow>
                      DecodeDHCPOptions_loop data (j + len + 1) (output(code \<mapsto> option))))))
      else Inr (Inl OptionsNotTerminated))"
  by pat_completeness auto
termination
  by (relation "measure (\<lambda>(data, i, output). length data - i)") auto

definition DecodeDHCPOptions :: "bytes \<Rightarrow> panic + (error + DHCPOptions)" where
  "DecodeDHCPOptions data = DecodeDHCPOptions_loop data 0 Map.empty"

text \<open>
  The \<open>Encode\<close> of each option. \<open>IPDHCPOption.Encode\<close> panics on an address that is
  not IPv4.
\<close>

fun IPDHCPOption_Encode :: "IP list \<Rightarrow> panic + bytes" where
  "IPDHCPOption_Encode [] = Inr []"
| "IPDHCPOption_Encode (ip # ips) =
     (if To4 ip = [] then Inl PanicIPv6
      else (case IPDHCPOption_Encode ips of
              Inl p \<Rightarrow> Inl p
            | Inr rest \<Rightarrow> Inr (take 4 (To4 ip) @ rest)))"

fun DHCPOption_Encode :: "DHCPOption \<Rightarrow> panic + bytes" where
  "DHCPOption_Encode (IPDHCPOption v) = IPDHCPOption_Encode v"
| "DHCPOption_Encode (Uint8DHCPOption v) = Inr v"
| "DHCPOption_Encode (Uint16DHCPOption v) = Inr (concat (map be16 v))"
| "DHCPOption_Encode (StringDHCPOption v) = Inr v"
| "DHCPOption_Encode (DurationDHCPOption v) = Inr (be32 (word_of_int (v sdiv Second)))"

text \<open>
  \<open>DHCPOptions.Encode\<close>: \<open>order\<close> is the order in which \<open>range\<close> visits the keys.
\<close>

fun DHCPOptions_Encode_loop ::
  "DHCPOptionCode list \<Rightarrow> DHCPOptions \<Rightarrow> bytes \<Rightarrow> panic + (error + bytes)" where
  "DHCPOptions_Encode_loop [] options buffer = Inr (Inr (buffer @ [EndOptionCode]))"
| "DHCPOptions_Encode_loop (code # rest) options buffer =
     (case options code of
        None \<Rightarrow> DHCPOptions_Encode_loop rest options buffer
      | Some opt \<Rightarrow>
          if code = EndOptionCode \<or> code = PadOptionCode
          then DHCPOptions_Encode_loop rest options buffer
          else
            (case DHCPOption_Encode opt of
               Inl p \<Rightarrow> Inl p
             | Inr data \<Rightarrow>
                 if length data > 255 then Inr (Inl OptionTooLarge)
                 else DHCPOptions_Encode_loop rest options
                        (buffer @ [code, of_nat (length data)] @ data)))"

definition DHCPOptions_Encode :: "DHCPOptionCode list \<Rightarrow> DHCPOptions \<Rightarrow> panic + (error + bytes)" where
  "DHCPOptions_Encode order options = DHCPOptions_Encode_loop order options []"

section \<open>The BOOTP header and the DHCP message\<close>

type_synonym BootpOperation = byte
type_synonym BootpFlag = "16 word"
type_synonym DHCPType = byte
type_synonym BootpHwType = byte

definition BootRequest :: BootpOperation where "BootRequest = 1"
definition BootReply :: BootpOperation where "BootReply = 2"

definition DHCPUnknown :: DHCPType where "DHCPUnknown = 0"
definition DHCPDiscover :: DHCPType where "DHCPDiscover = 1"
definition DHCPOffer :: DHCPType where "DHCPOffer = 2"
definition DHCPRequest :: DHCPType where "DHCPRequest = 3"
definition DHCPDecline :: DHCPType where "DHCPDecline = 4"
definition DHCPAck :: DHCPType where "DHCPAck = 5"
definition DHCPNak :: DHCPType where "DHCPNak = 6"
definition DHCPRelease :: DHCPType where "DHCPRelease = 7"
definition DHCPInform :: DHCPType where "DHCPInform = 8"

definition BootpBroadcast :: BootpFlag where "BootpBroadcast = 0x8000"
definition BootpEthernet :: BootpHwType where "BootpEthernet = 1"

definition dhcpMagicCookie :: "32 word" where "dhcpMagicCookie = 0x63825363"
definition bootpHeaderSize :: nat where "bootpHeaderSize = 12 + 32 + 64 + 128"

record BootpHeader =
  BootpOperation :: BootpOperation
  HwAddrType :: BootpHwType
  Hops :: byte
  TransactionID :: "32 word"
  Seconds :: Duration
  Flags :: BootpFlag
  ClientIP :: IP
  YourIP :: IP
  ServerIP :: IP
  RelayAgentIP :: IP
  ClientHwAddr :: bytes
  ServerName :: gostring
  FileName :: gostring

text \<open>
  \<open>rawBootpHeader\<close>: the fixed-size arrays are lists of that length (4, 16, 64 and 128).
\<close>

record rawBootpHeader =
  raw_Op :: byte
  raw_HwAddrType :: byte
  raw_HwAddrLength :: byte
  raw_Hops :: byte
  raw_TransactionID :: "32 word"
  raw_Seconds :: "16 word"
  raw_Flags :: "16 word"
  raw_ClientIP :: bytes
  raw_YourIP :: bytes
  raw_ServerIP :: bytes
  raw_RelayAgentIP :: bytes
  raw_ClientHwAddr :: bytes
  raw_ServerName :: bytes
  raw_FileName :: bytes

record DHCPMessage =
  BootpHeader :: BootpHeader
  Options :: DHCPOptions

text \<open>The zero values of \<open>BootpHeader\<close> and \<open>DHCPMessage\<close> (\<open>var out DHCPMessage\<close>).\<close>

definition zeroBootpHeader :: BootpHeader where
  "zeroBootpHeader =
     \<lparr>BootpOperation = 0, HwAddrType = 0, Hops = 0, TransactionID = 0, Seconds = 0, Flags = 0,
      ClientIP = [], YourIP = [], ServerIP = [], RelayAgentIP = [], ClientHwAddr = [],
      ServerName = [], FileName = []\<rparr>"

definition zeroDHCPMessage :: DHCPMessage where
  "zeroDHCPMessage = \<lparr>BootpHeader = zeroBootpHeader, Options = Map.empty\<rparr>"

text \<open>
  The built-in \<open>copy(dst, src)\<close>: the first \<open>min(len(dst), len(src))\<close> elements of
  \<open>dst\<close> are overwritten.
\<close>

definition gocopy :: "'a list \<Rightarrow> 'a list \<Rightarrow> 'a list" where
  "gocopy dst src = take (length dst) src @ drop (length src) dst"

definition ipToArray :: "IP \<Rightarrow> bytes" where
  "ipToArray ip = (if To4 ip \<noteq> [] then gocopy [0, 0, 0, 0] (take 4 (To4 ip)) else [0, 0, 0, 0])"

fun cstringToGo :: "bytes \<Rightarrow> gostring" where
  "cstringToGo [] = []"
| "cstringToGo (b # bs) = (if b = 0 then [] else b # cstringToGo bs)"

definition raw :: "BootpHeader \<Rightarrow> rawBootpHeader" where
  "raw bootp =
     (let hwlen = (of_nat (length (ClientHwAddr bootp)) :: byte) in
      \<lparr>raw_Op = BootpOperation bootp,
       raw_HwAddrType = HwAddrType bootp,
       raw_HwAddrLength = hwlen,
       raw_Hops = Hops bootp,
       raw_TransactionID = TransactionID bootp,
       raw_Seconds = word_of_int (Seconds bootp sdiv Second),
       raw_Flags = Flags bootp,
       raw_ClientIP = ipToArray (ClientIP bootp),
       raw_YourIP = ipToArray (YourIP bootp),
       raw_ServerIP = ipToArray (ServerIP bootp),
       raw_RelayAgentIP = ipToArray (RelayAgentIP bootp),
       raw_ClientHwAddr = gocopy (replicate 16 0) (take (unat hwlen) (ClientHwAddr bootp)),
       raw_ServerName = gocopy (replicate 64 0) (ServerName bootp),
       raw_FileName = gocopy (replicate 128 0) (FileName bootp)\<rparr>)"

text \<open>
  \<open>transform\<close> returns the header it has built so far together with the error.
\<close>

definition transform :: "rawBootpHeader \<Rightarrow> BootpHeader \<times> error option" where
  "transform r =
     (let ip = (\<lambda>a. IPv4 (a ! 0) (a ! 1) (a ! 2) (a ! 3));
          bootp =
            \<lparr>BootpOperation = raw_Op r,
             HwAddrType = raw_HwAddrType r,
             Hops = raw_Hops r,
             TransactionID = raw_TransactionID r,
             Seconds = uint (raw_Seconds r) * Second,
             Flags = raw_Flags r,
             ClientIP = ip (raw_ClientIP r),
             YourIP = ip (raw_YourIP r),
             ServerIP = ip (raw_ServerIP r),
             RelayAgentIP = ip (raw_RelayAgentIP r),
             ClientHwAddr = [],
             ServerName = cstringToGo (raw_ServerName r),
             FileName = cstringToGo (raw_FileName r)\<rparr>;
          hwLength = unat (raw_HwAddrLength r)
      in if raw_Op r \<noteq> BootRequest \<and> raw_Op r \<noteq> BootReply then (bootp, Some InvalidBootpOperation)
         else if hwLength \<le> 0 \<or> hwLength > 16 then (bootp, Some InvalidMacLength)
         else (bootp\<lparr>ClientHwAddr := gocopy (replicate hwLength 0) (take hwLength (raw_ClientHwAddr r))\<rparr>,
               None))"

text \<open>
  \<open>binary.Write\<close> and \<open>binary.Read\<close> of a \<open>rawBootpHeader\<close> in big-endian order: the
  fields one after the other, 236 bytes. Reading from fewer bytes fails with \<open>io.EOF\<close>
  when there are none and with \<open>io.ErrUnexpectedEOF\<close> otherwise.
\<close>

definition write_rawBootpHeader :: "rawBootpHeader \<Rightarrow> bytes" where
  "write_rawBootpHeader r =
     [raw_Op r, raw_HwAddrType r, raw_HwAddrLength r, raw_Hops r]
     @ be32 (raw_TransactionID r) @ be16 (raw_Seconds r) @ be16 (raw_Flags r)
     @ raw_ClientIP r @ raw_YourIP r @ raw_ServerIP r @ raw_RelayAgentIP r
     @ raw_ClientHwAddr r @ raw_ServerName r @ raw_FileName r"

definition read_rawBootpHeader :: "bytes \<Rightarrow> error + rawBootpHeader" where
  "read_rawBootpHeader b =
     (if length b = 0 then Inl EOF
      else if length b < bootpHeaderSize then Inl ErrUnexpectedEOF
      else Inr
        \<lparr>raw_Op = b ! 0,
         raw_HwAddrType = b ! 1,
         raw_HwAddrLength = b ! 2,
         raw_Hops = b ! 3,
         raw_TransactionID = from_be32 (b ! 4) (b ! 5) (b ! 6) (b ! 7),
         raw_Seconds = from_be16 (b ! 8) (b ! 9),
         raw_Flags = from_be16 (b ! 10) (b ! 11),
         raw_ClientIP = slice b 12 16,
         raw_YourIP = slice b 16 20,
         raw_ServerIP = slice b 20 24,
         raw_RelayAgentIP = slice b 24 28,
         raw_ClientHwAddr = slice b 28 44,
         raw_ServerName = slice b 44 108,
         raw_FileName = slice b 108 236\<rparr>)"

text \<open>
  \<open>UnmarshallDHCPMessage\<close> returns the pair \<open>(out, err)\<close>; a caller that ignores the
  error still holds \<open>out\<close>.
\<close>

definition UnmarshallDHCPMessage :: "bytes \<Rightarrow> panic + (DHCPMessage \<times> error option)" where
  "UnmarshallDHCPMessage msg =
     (case read_rawBootpHeader msg of
        Inl err \<Rightarrow> Inr (zeroDHCPMessage, Some err)
      | Inr header \<Rightarrow>
          if length msg < bootpHeaderSize + 4 then Inr (zeroDHCPMessage, Some UnableToReadCookie)
          else if from_be32 (msg ! 236) (msg ! 237) (msg ! 238) (msg ! 239) \<noteq> dhcpMagicCookie
          then Inr (zeroDHCPMessage, Some InvalidCookie)
          else
            (case DecodeDHCPOptions (drop (bootpHeaderSize + 4) msg) of
               Inl p \<Rightarrow> Inl p
             | Inr (Inl err) \<Rightarrow> Inr (zeroDHCPMessage, Some err)
             | Inr (Inr options) \<Rightarrow>
                 (case transform header of
                    (bootp, Some err) \<Rightarrow> Inr (zeroDHCPMessage\<lparr>BootpHeader := bootp\<rparr>, Some err)
                  | (bootp, None) \<Rightarrow> Inr (\<lparr>BootpHeader = bootp, Options = options\<rparr>, None))))"

text \<open>
  \<open>MarshallDHCPMessage\<close> returns the pair \<open>(bytes, err)\<close>; the nil slice is \<open>[]\<close>.
  Writing to a \<open>bytes.Buffer\<close> does not fail.
\<close>

definition MarshallDHCPMessage ::
  "DHCPOptionCode list \<Rightarrow> DHCPMessage \<Rightarrow> panic + (bytes \<times> error option)" where
  "MarshallDHCPMessage order msg =
     (let header = raw (BootpHeader msg);
          buffer = write_rawBootpHeader header @ be32 dhcpMagicCookie
      in case DHCPOptions_Encode order (Options msg) of
           Inl p \<Rightarrow> Inl p
         | Inr (Inl err) \<Rightarrow> Inr ([], None)
         | Inr (Inr opt) \<Rightarrow> Inr (buffer @ opt, None))"

text \<open>
  The accessors. \<open>Type\<close> calls \<open>opt.Data()\<close> before it looks at \<open>found\<close>: on a missing
  option \<open>opt\<close> is the nil interface and the call panics.
\<close>

definition Type :: "DHCPMessage \<Rightarrow> panic + DHCPType" where
  "Type msg =
     (case Options msg DHCPMessageTypeOptionCode of
        None \<Rightarrow> Inl NilDereference
      | Some (Uint8DHCPOption v) \<Rightarrow>
          (case v of
             [] \<Rightarrow> Inl IndexOutOfRange
           | t # _ \<Rightarrow> if t > DHCPInform \<or> t = 0 then Inr DHCPUnknown else Inr t)
      | Some _ \<Rightarrow> Inl TypeAssertion)"

definition RequestedIP :: "DHCPMessage \<Rightarrow> panic + IP" where
  "RequestedIP msg =
     (case Options msg RequestIPAddressOptionCode of
        None \<Rightarrow> Inr []
      | Some (IPDHCPOption v) \<Rightarrow> (case v of [] \<Rightarrow> Inl IndexOutOfRange | ip # _ \<Rightarrow> Inr ip)
      | Some _ \<Rightarrow> Inl TypeAssertion)"

definition ServerIdentifier :: "DHCPMessage \<Rightarrow> panic + IP" where
  "ServerIdentifier msg =
     (case Options msg ServerIdentifierOptionCode of
        None \<Rightarrow> Inr []
      | Some (IPDHCPOption v) \<Rightarrow> (case v of [] \<Rightarrow> Inl IndexOutOfRange | ip # _ \<Rightarrow> Inr ip)
      | Some _ \<Rightarrow> Inl TypeAssertion)"

definition BuildBasicReply :: "DHCPMessage \<Rightarrow> IP \<Rightarrow> DHCPMessage" where
  "BuildBasicReply request serverIP =
     \<lparr>BootpHeader =
        \<lparr>BootpOperation = BootReply,
         HwAddrType = HwAddrType (BootpHeader request),
         Hops = Hops (BootpHeader request),
         TransactionID = TransactionID (BootpHeader request),
         Seconds = Seconds (BootpHeader request),
         Flags = BootpBroadcast,
         ClientIP = IPv4zero,
         YourIP = IPv4zero,
         ServerIP = serverIP,
         RelayAgentIP = IPv4zero,
         ClientHwAddr = ClientHwAddr (BootpHeader request),
         ServerName = [],
         FileName = []\<rparr>,
      Options = [ServerIdentifierOptionCode \<mapsto> IPDHCPOption [serverIP]]\<rparr>"

section \<open>The pool\<close>

datatype LeaseState = LeaseReserved | LeaseInUse

datatype AddressSelectAlgorithm = Sequential | Randomized

record ClientIdentifier =
  ID :: bytes
  Mac :: bytes

text \<open>The field \<open>ID\<close> of a \<open>Lease\<close> is \<open>LeaseID\<close> here: \<open>ID\<close> is the client identifier's.\<close>

record Lease =
  Address :: IP
  State :: LeaseState
  LeaseID :: ClientIdentifier
  Expires :: Time

record IPNet =
  NetIP :: IP
  Mask :: bytes

text \<open>
  \<open>LeaseMap\<close> maps an index to a pointer to its lease; each pointer is held by one key
  only, so the map holds the leases themselves. The channel \<open>Receiver\<close> is the list of
  messages the caller hands to the handlers.
\<close>

type_synonym LeaseMap = "32 word \<rightharpoonup> Lease"

record Pool =
  Leases :: LeaseMap
  Network :: IPNet
  Start :: "32 word"
  End :: "32 word"
  Lifetime :: Duration
  Algorithm :: AddressSelectAlgorithm

text \<open>
  A \<open>net.Interface\<close> with the addresses \<open>Addrs()\<close> reports for it (the \<open>IP\<close> of each
  \<open>*net.IPNet\<close> or \<open>*net.IPAddr\<close>, nil for another kind of address).
\<close>

record NetInterface =
  Index :: int
  Addrs :: "IP list"

type_synonym UDPAddr = "IP \<times> nat"

record DirectedDHCPMessage =
  Message :: DHCPMessage
  Interface :: "NetInterface option"
  Remote :: "UDPAddr option"

definition equals :: "ClientIdentifier \<Rightarrow> ClientIdentifier \<Rightarrow> bool" where
  "equals cid other = (if length (ID cid) > 0 then ID cid = ID other else Mac cid = Mac other)"

definition newClientIdentifier :: "DHCPMessage \<Rightarrow> ClientIdentifier" where
  "newClientIdentifier msg = \<lparr>ID = [], Mac = ClientHwAddr (BootpHeader msg)\<rparr>"

fun serverIP_loop :: "IP list \<Rightarrow> IP" where
  "serverIP_loop [] = IPv4 0 0 0 0"
| "serverIP_loop (ip # addresses) = (if To4 ip \<noteq> [] then To4 ip else serverIP_loop addresses)"

text \<open>On a nil interface \<open>Addrs()\<close> returns no address and an error that is ignored.\<close>

definition serverIP :: "NetInterface option \<Rightarrow> IP" where
  "serverIP iface = serverIP_loop (case iface of None \<Rightarrow> [] | Some i \<Rightarrow> Addrs i)"

text \<open>
  The first four bytes of a slice as a big-endian \<open>uint32\<close>, as \<open>addressFromIndex\<close> and
  \<open>indexFromAddress\<close> compute it; indexing a shorter slice panics. Their variable
  \<open>mask\<close> is \<open>mask0\<close> before and \<open>mask1\<close> after the assignment \<open>mask |= index + pool.Start\<close>.
\<close>

definition ip_uint32 :: "bytes \<Rightarrow> panic + 32 word" where
  "ip_uint32 b =
     (if length b < 4 then Inl IndexOutOfRange
      else Inr (push_bit 24 (ucast (b ! 0)) OR push_bit 16 (ucast (b ! 1))
                OR push_bit 8 (ucast (b ! 2)) OR ucast (b ! 3)))"

definition addressFromIndex :: "Pool \<Rightarrow> 32 word \<Rightarrow> panic + IP" where
  "addressFromIndex pool index =
     (case ip_uint32 (NetIP (Network pool)) of
        Inl p \<Rightarrow> Inl p
      | Inr mask0 \<Rightarrow>
          (let mask1 = mask0 OR (index + Start pool)
           in Inr (IPv4 (ucast (drop_bit 24 mask1 AND 0xFF)) (ucast (drop_bit 16 mask1 AND 0xFF))
                        (ucast (drop_bit 8 mask1 AND 0xFF)) (ucast (mask1 AND 0xFF)))))"

definition indexFromAddress :: "Pool \<Rightarrow> IP \<Rightarrow> panic + (error + 32 word)" where
  "indexFromAddress pool ip =
     (case ip_uint32 (NetIP (Network pool)) of
        Inl p \<Rightarrow> Inl p
      | Inr mask0 \<Rightarrow>
          (let ip4 = To4 ip in
           if ip4 = [] then Inr (Inl InvalidIPv4Address)
           else
             (case ip_uint32 ip4 of
                Inl p \<Rightarrow> Inl p
              | Inr ipaddr \<Rightarrow> Inr (Inr ((ipaddr AND NOT mask0) - Start pool)))))"

text \<open>
  \<open>selectNumber\<close>: \<open>rnd\<close> is the value \<open>rand.Intn(len(indices))\<close> returns, which is below
  \<open>len(indices)\<close>.
\<close>

definition selectNumber :: "AddressSelectAlgorithm \<Rightarrow> 32 word list \<Rightarrow> nat \<Rightarrow> panic + 32 word" where
  "selectNumber algo indices rnd =
     (case algo of
        Sequential \<Rightarrow> (case indices of [] \<Rightarrow> Inl IndexOutOfRange | i # _ \<Rightarrow> Inr i)
      | Randomized \<Rightarrow> if rnd < length indices then Inr (indices ! rnd) else Inl IndexOutOfRange)"

text \<open>
  \<open>freeIndices\<close>: the loop \<open>for i := pool.Start; i <= pool.End; i++\<close> over \<open>uint32\<close>. With
  \<open>End = 0xFFFFFFFF\<close> the test never fails and the loop does not return (\<open>None\<close>).
\<close>

partial_function (option) freeIndices_loop :: "Pool \<Rightarrow> 32 word \<Rightarrow> 32 word list \<Rightarrow> 32 word list option" where
  "freeIndices_loop pool i result =
     (if i \<le> End pool
      then freeIndices_loop pool (i + 1) (if Leases pool i = None then result @ [i] else result)
      else Some result)"

definition freeIndices :: "Pool \<Rightarrow> 32 word list option" where
  "freeIndices pool = freeIndices_loop pool (Start pool) []"

text \<open>
  \<open>findClientLease\<close> ranges over the map in the order \<open>order\<close> of its keys and returns
  the first lease of the client.
\<close>

fun findClientLease_loop :: "32 word list \<Rightarrow> LeaseMap \<Rightarrow> ClientIdentifier \<Rightarrow> Lease option" where
  "findClientLease_loop [] leases cid = None"
| "findClientLease_loop (k # order) leases cid =
     (case leases k of
        None \<Rightarrow> findClientLease_loop order leases cid
      | Some l \<Rightarrow> if equals (LeaseID l) cid then Some l else findClientLease_loop order leases cid)"

definition findClientLease :: "32 word list \<Rightarrow> Pool \<Rightarrow> ClientIdentifier \<Rightarrow> Lease option" where
  "findClientLease order pool cid = findClientLease_loop order (Leases pool) cid"

text \<open>
  \<open>freeLeases\<close> and \<open>expireOld\<close> visit every key once and delete the current key when its
  lease matches, so the result does not depend on the order. \<open>expireOld\<close> reads the
  clock at each key: \<open>clock i\<close> is \<open>time.Now()\<close> when key \<open>i\<close> is visited.
\<close>

definition freeLeases :: "ClientIdentifier \<Rightarrow> Pool \<Rightarrow> Pool" where
  "freeLeases cid pool =
     pool\<lparr>Leases := (\<lambda>i. case Leases pool i of
                               None \<Rightarrow> None
                             | Some lease \<Rightarrow> if equals (LeaseID lease) cid then None else Some lease)\<rparr>"

definition expireOld :: "(32 word \<Rightarrow> Time) \<Rightarrow> Pool \<Rightarrow> Pool" where
  "expireOld clock pool =
     pool\<lparr>Leases := (\<lambda>i. case Leases pool i of
                               None \<Rightarrow> None
                             | Some lease \<Rightarrow> if Before (Expires lease) (clock i) then None else Some lease)\<rparr>"

text \<open>
  The reply \<open>handleDiscover\<close> and \<open>handleRequest\<close> build for a lease: \<open>BuildBasicReply\<close>
  with \<open>YourIP\<close> and the five options; \<open>t\<close> is \<open>DHCPOffer\<close> or \<open>DHCPAck\<close>. Reading a mask
  shorter than four bytes panics.
\<close>

definition leaseReply :: "DHCPType \<Rightarrow> Pool \<Rightarrow> DirectedDHCPMessage \<Rightarrow> IP \<Rightarrow> Lease \<Rightarrow> panic + DirectedDHCPMessage" where
  "leaseReply t pool msg server lease =
     (let reply = BuildBasicReply (Message msg) server;
          m = Mask (Network pool)
      in if length m < 4 then Inl IndexOutOfRange
         else Inr
           \<lparr>Message =
              \<lparr>BootpHeader = (BootpHeader reply)\<lparr>YourIP := Address lease\<rparr>,
               Options = (Options reply)
                 (DHCPMessageTypeOptionCode \<mapsto> Uint8DHCPOption [t],
                  SubnetMaskOptionCode \<mapsto> IPDHCPOption [IPv4 (m ! 0) (m ! 1) (m ! 2) (m ! 3)],
                  RouterOptionCode \<mapsto> IPDHCPOption [server],
                  DomainNameServerOptionCode \<mapsto> IPDHCPOption [server],
                  IPAddressLeaseTimeOptionCode \<mapsto> DurationDHCPOption (Lifetime pool))\<rparr>,
            Interface = Interface msg,
            Remote = Remote msg\<rparr>)"

text \<open>
  The handlers return the pool and the messages sent to \<open>sender\<close>, in order.
  \<open>handleDiscover\<close> does not return when \<open>freeIndices\<close> does not.
\<close>

definition handleDiscover ::
  "32 word list \<Rightarrow> nat \<Rightarrow> DirectedDHCPMessage \<Rightarrow> Pool \<Rightarrow> (panic + Pool \<times> DirectedDHCPMessage list) option" where
  "handleDiscover order rnd msg pool =
     (let clientID = newClientIdentifier (Message msg);
          server = serverIP (Interface msg);
          offer = (\<lambda>pool' lease.
                     case leaseReply DHCPOffer pool' msg server lease of
                       Inl p \<Rightarrow> Inl p
                     | Inr reply \<Rightarrow> Inr (pool', [reply]))
      in case findClientLease order pool clientID of
           Some lease \<Rightarrow> Some (offer pool lease)
         | None \<Rightarrow>
             (case freeIndices pool of
                None \<Rightarrow> None
              | Some free \<Rightarrow>
                  if length free = 0 then Some (Inr (pool, []))
                  else
                    (case selectNumber (Algorithm pool) free rnd of
                       Inl p \<Rightarrow> Some (Inl p)
                     | Inr idx \<Rightarrow>
                         (case addressFromIndex pool idx of
                            Inl p \<Rightarrow> Some (Inl p)
                          | Inr address \<Rightarrow>
                              (let lease = \<lparr>Address = address, State = LeaseReserved,
                                            LeaseID = clientID, Expires = zeroTime\<rparr>
                               in Some (offer (pool\<lparr>Leases := (Leases pool)(idx \<mapsto> lease)\<rparr>) lease))))))"

definition sendNack :: "DirectedDHCPMessage \<Rightarrow> IP \<Rightarrow> gostring \<Rightarrow> DirectedDHCPMessage" where
  "sendNack msg server reason =
     (let nak = BuildBasicReply (Message msg) server
      in \<lparr>Message =
            nak\<lparr>Options := (Options nak)
                   (DHCPMessageTypeOptionCode \<mapsto> Uint8DHCPOption [DHCPNak],
                    MessageOptionCode \<mapsto> StringDHCPOption reason)\<rparr>,
          Interface = Interface msg,
          Remote = Remote msg\<rparr>)"

datatype NackReason = InvalidAddress | NoLeaseFound | LeasedByDifferentClient

definition reasonText :: "NackReason \<Rightarrow> gostring" where
  "reasonText r =
     map (of_nat \<circ> of_char)
       (case r of
          InvalidAddress \<Rightarrow> ''Invalid address''
        | NoLeaseFound \<Rightarrow> ''No lease found''
        | LeasedByDifferentClient \<Rightarrow> ''Requested IP address is leased by different client'')"

definition handleRequest ::
  "Time \<Rightarrow> DirectedDHCPMessage \<Rightarrow> Pool \<Rightarrow> panic + Pool \<times> DirectedDHCPMessage list" where
  "handleRequest now msg pool =
     (let clientID = newClientIdentifier (Message msg);
          server = serverIP (Interface msg);
          refuse = (\<lambda>selectedServer reason.
                      if selectedServer \<noteq> [] then Inr (pool, [sendNack msg server (reasonText reason)])
                      else Inr (pool, []))
      in case ServerIdentifier (Message msg) of
           Inl p \<Rightarrow> Inl p
         | Inr selectedServer \<Rightarrow>
             (case RequestedIP (Message msg) of
                Inl p \<Rightarrow> Inl p
              | Inr requested \<Rightarrow>
                  if requested = [] \<and> Equal (ClientIP (BootpHeader (Message msg))) IPv4zero
                  then Inr (pool, [])
                  else
                    (let requestedIP =
                           (if requested = [] then ClientIP (BootpHeader (Message msg)) else requested)
                     in if selectedServer \<noteq> [] \<and> \<not> Equal server selectedServer
                        then Inr (freeLeases clientID pool, [])
                        else
                          (case indexFromAddress pool requestedIP of
                             Inl p \<Rightarrow> Inl p
                           | Inr (Inl err) \<Rightarrow> refuse selectedServer InvalidAddress
                           | Inr (Inr idx) \<Rightarrow>
                               (case Leases pool idx of
                                  None \<Rightarrow> refuse selectedServer NoLeaseFound
                                | Some lease \<Rightarrow>
                                    if \<not> equals (LeaseID lease) clientID
                                    then refuse selectedServer LeasedByDifferentClient
                                    else
                                      (let lease' = lease\<lparr>State := LeaseInUse,
                                                          Expires := now + Lifetime pool\<rparr>;
                                           pool' = pool\<lparr>Leases := (Leases pool)(idx \<mapsto> lease')\<rparr>
                                       in case leaseReply DHCPAck pool' msg server lease' of
                                            Inl p \<Rightarrow> Inl p
                                          | Inr ack \<Rightarrow> Inr (pool', [ack])))))))"

definition handleRelease :: "DirectedDHCPMessage \<Rightarrow> Pool \<Rightarrow> Pool" where
  "handleRelease msg pool =
     (let clientID = newClientIdentifier (Message msg);
          server = serverIP (Interface msg)
      in if Equal (ServerIP (BootpHeader (Message msg))) server then freeLeases clientID pool
         else pool)"

section \<open>The receiver\<close>

text \<open>
  One turn of the loop of \<open>UDPReceiver\<close> for each result of \<open>ReadUDPWithPktInfo\<close>: an
  error, or the datagram's bytes, its source and the index of the interface it came in
  on. The datagram is read into a buffer of 576 zero bytes and the whole buffer is
  decoded. \<open>ifaces\<close> is \<open>net.InterfaceByIndex\<close>. The state is the lines printed, the
  messages sent on the channel in order, and whether the channel is closed.
\<close>

datatype LogLine = ErrorWhileReading error | UnableToParse error

record ReceiverState =
  Printed :: "LogLine list"
  Channel :: "DirectedDHCPMessage list"
  Closed :: bool

type_synonym ReadResult = "error + (bytes \<times> UDPAddr option \<times> int)"

fun UDPReceiver_loop ::
  "(int \<Rightarrow> NetInterface option) \<Rightarrow> ReadResult list \<Rightarrow> ReceiverState \<Rightarrow> panic + ReceiverState" where
  "UDPReceiver_loop ifaces [] st = Inr st"
| "UDPReceiver_loop ifaces (Inl err # reads) st =
     Inr (st\<lparr>Printed := Printed st @ [ErrorWhileReading err], Closed := True\<rparr>)"
| "UDPReceiver_loop ifaces (Inr (payload, addr, ifindex) # reads) st =
     (let buffer = gocopy (replicate 576 0) payload;
          iface = ifaces ifindex
      in case UnmarshallDHCPMessage buffer of
           Inl p \<Rightarrow> Inl p
         | Inr (dhcp, err) \<Rightarrow>
             UDPReceiver_loop ifaces reads
               (st\<lparr>Printed := (case err of
                                 Some e \<Rightarrow> Printed st @ [UnableToParse e]
                               | None \<Rightarrow> Printed st),
                   Channel := Channel st @ [\<lparr>Message = dhcp, Interface = iface, Remote = addr\<rparr>]\<rparr>))"

definition UDPReceiver :: "(int \<Rightarrow> NetInterface option) \<Rightarrow> ReadResult list \<Rightarrow> panic + ReceiverState" where
  "UDPReceiver ifaces reads =
     UDPReceiver_loop ifaces reads \<lparr>Printed = [], Channel = [], Closed = False\<rparr>"

section \<open>Concrete scenarios\<close>

text \<open>
  The pool of the default configuration (\<open>192.168.99.0/24\<close>, hosts 2 to 99, 24 hours),
  here with the sequential algorithm, the interface it serves with the server's address
  \<open>192.168.99.1\<close>, and a client with the hardware address \<open>01:02:03:04:05:06\<close>.
\<close>

definition examplePool :: Pool where
  "examplePool =
     \<lparr>Leases = Map.empty,
      Network = \<lparr>NetIP = [192, 168, 99, 0], Mask = [255, 255, 255, 0]\<rparr>,
      Start = 2, End = 99, Lifetime = 86400 * Second, Algorithm = Sequential\<rparr>"

definition exampleInterface :: NetInterface where
  "exampleInterface = \<lparr>Index = 2, Addrs = [IPv4 192 168 99 1]\<rparr>"

definition clientHeader :: BootpHeader where
  "clientHeader =
     \<lparr>BootpOperation = BootRequest, HwAddrType = BootpEthernet, Hops = 0,
      TransactionID = 0xdeadbeef, Seconds = 0, Flags = BootpBroadcast,
      ClientIP = IPv4 0 0 0 0, YourIP = IPv4 0 0 0 0, ServerIP = IPv4 0 0 0 0,
      RelayAgentIP = IPv4 0 0 0 0, ClientHwAddr = [1, 2, 3, 4, 5, 6],
      ServerName = [], FileName = []\<rparr>"

definition exampleDiscover :: DirectedDHCPMessage where
  "exampleDiscover =
     \<lparr>Message = \<lparr>BootpHeader = clientHeader,
                  Options = [DHCPMessageTypeOptionCode \<mapsto> Uint8DHCPOption [DHCPDiscover]]\<rparr>,
      Interface = Some exampleInterface, Remote = None\<rparr>"

definition exampleLease :: Lease where
  "exampleLease =
     \<lparr>Address = IPv4 192 168 99 4, State = LeaseReserved,
      LeaseID = \<lparr>ID = [], Mac = [1, 2, 3, 4, 5, 6]\<rparr>, Expires = zeroTime\<rparr>"

text \<open>A second client, \<open>0a:0b:0c:0d:0e:0f\<close>, and the pool with a lease for each.\<close>

definition otherLease :: Lease where
  "otherLease =
     \<lparr>Address = IPv4 192 168 99 5, State = LeaseInUse,
      LeaseID = \<lparr>ID = [], Mac = [10, 11, 12, 13, 14, 15]\<rparr>, Expires = 5000 * Second\<rparr>"

definition leasedPool :: Pool where
  "leasedPool = examplePool\<lparr>Leases := [2 \<mapsto> exampleLease, 3 \<mapsto> otherLease]\<rparr>"

text \<open>
  REQUEST messages of the first client: for its address and this server; for its
  address and another server; for another server with neither option 50 nor \<open>ciaddr\<close>.
\<close>

definition exampleRequest :: DirectedDHCPMessage where
  "exampleRequest =
     \<lparr>Message = \<lparr>BootpHeader = clientHeader,
                  Options = [DHCPMessageTypeOptionCode \<mapsto> Uint8DHCPOption [DHCPRequest],
                             RequestIPAddressOptionCode \<mapsto> IPDHCPOption [IPv4 192 168 99 4],
                             ServerIdentifierOptionCode \<mapsto> IPDHCPOption [IPv4 192 168 99 1]]\<rparr>,
      Interface = Some exampleInterface, Remote = None\<rparr>"

definition requestForOtherServer :: DirectedDHCPMessage where
  "requestForOtherServer =
     \<lparr>Message = \<lparr>BootpHeader = clientHeader,
                  Options = [DHCPMessageTypeOptionCode \<mapsto> Uint8DHCPOption [DHCPRequest],
                             RequestIPAddressOptionCode \<mapsto> IPDHCPOption [IPv4 192 168 99 4],
                             ServerIdentifierOptionCode \<mapsto> IPDHCPOption [IPv4 192 168 99 250]]\<rparr>,
      Interface = Some exampleInterface, Remote = None\<rparr>"

definition bareRequestForOtherServer :: DirectedDHCPMessage where
  "bareRequestForOtherServer =
     \<lparr>Message = \<lparr>BootpHeader = clientHeader,
                  Options = [DHCPMessageTypeOptionCode \<mapsto> Uint8DHCPOption [DHCPRequest],
                             ServerIdentifierOptionCode \<mapsto> IPDHCPOption [IPv4 192 168 99 250]]\<rparr>,
      Interface = Some exampleInterface, Remote = None\<rparr>"

text \<open>A reply whose option 56 carries a text of 256 bytes.\<close>

definition longMessage :: DHCPMessage where
  "longMessage =
     \<lparr>BootpHeader = clientHeader\<lparr>BootpOperation := BootReply\<rparr>,
      Options = [MessageOptionCode \<mapsto> StringDHCPOption (replicate 256 65)]\<rparr>"

section \<open>Well-formed messages and the round trip\<close>

text \<open>
  The messages of the specification's data model: the operation is REQUEST or REPLY,
  the hardware address has 1 to 16 bytes, the seconds are whole and fit 16 bits, the
  four addresses are IPv4 addresses (in the 4-byte or the 16-byte form of \<open>net.IP\<close>),
  the server name and the file name fit their 64 and 128 bytes, and every option has
  the variant the table gives its code, a payload of at most 255 bytes and, for a
  duration, whole seconds that fit 32 bits.
\<close>

definition wellformed_option :: "DHCPOptionCode \<Rightarrow> DHCPOption \<Rightarrow> bool" where
  "wellformed_option code opt =
     (case opt of
        IPDHCPOption v \<Rightarrow>
          optionKind code = Some KindIP \<and> list_all (\<lambda>ip. To4 ip \<noteq> []) v \<and> length v * 4 \<le> 255
      | Uint8DHCPOption v \<Rightarrow> optionKind code = Some KindUint8 \<and> length v \<le> 255
      | Uint16DHCPOption v \<Rightarrow> optionKind code = Some KindUint16 \<and> length v * 2 \<le> 255
      | StringDHCPOption v \<Rightarrow> optionKind code = Some KindString \<and> length v \<le> 255
      | DurationDHCPOption d \<Rightarrow>
          optionKind code = Some KindDuration \<and> 0 \<le> d \<and> d < 2 ^ 32 * Second \<and> d mod Second = 0)"

definition wellformed_header :: "BootpHeader \<Rightarrow> bool" where
  "wellformed_header h =
     ((BootpOperation h = BootRequest \<or> BootpOperation h = BootReply)
      \<and> 1 \<le> length (ClientHwAddr h) \<and> length (ClientHwAddr h) \<le> 16
      \<and> 0 \<le> Seconds h \<and> Seconds h < 2 ^ 16 * Second \<and> Seconds h mod Second = 0
      \<and> To4 (ClientIP h) \<noteq> [] \<and> To4 (YourIP h) \<noteq> [] \<and> To4 (ServerIP h) \<noteq> []
      \<and> To4 (RelayAgentIP h) \<noteq> []
      \<and> length (ServerName h) \<le> 64 \<and> length (FileName h) \<le> 128)"

definition wellformed :: "DHCPMessage \<Rightarrow> bool" where
  "wellformed m =
     (wellformed_header (BootpHeader m)
      \<and> (\<forall>code. case Options m code of None \<Rightarrow> True | Some opt \<Rightarrow> wellformed_option code opt))"

text \<open>
  The same message up to what the claim allows: the address a \<open>net.IP\<close> stands for
  (\<open>IP.Equal\<close>), and the server name and the file name cut at the first NUL byte. The
  option maps are compared key by key, so the order of iteration plays no part.
\<close>

definition same_option :: "DHCPOption \<Rightarrow> DHCPOption \<Rightarrow> bool" where
  "same_option a b =
     (case (a, b) of
        (IPDHCPOption v, IPDHCPOption w) \<Rightarrow> list_all2 Equal v w
      | _ \<Rightarrow> a = b)"

definition same_header :: "BootpHeader \<Rightarrow> BootpHeader \<Rightarrow> bool" where
  "same_header h h' =
     (BootpOperation h' = BootpOperation h \<and> HwAddrType h' = HwAddrType h \<and> Hops h' = Hops h
      \<and> TransactionID h' = TransactionID h \<and> Seconds h' = Seconds h \<and> Flags h' = Flags h
      \<and> Equal (ClientIP h) (ClientIP h') \<and> Equal (YourIP h) (YourIP h')
      \<and> Equal (ServerIP h) (ServerIP h') \<and> Equal (RelayAgentIP h) (RelayAgentIP h')
      \<and> ClientHwAddr h' = ClientHwAddr h
      \<and> ServerName h' = cstringToGo (ServerName h) \<and> FileName h' = cstringToGo (FileName h))"

definition same_message :: "DHCPMessage \<Rightarrow> DHCPMessage \<Rightarrow> bool" where
  "same_message m m' =
     (same_header (BootpHeader m) (BootpHeader m')
      \<and> (\<forall>code. rel_option same_option (Options m code) (Options m' code)))"

text \<open>
  What decoding returns for the encoding of a well-formed message: every address in
  the 16-byte form \<open>net.IPv4\<close> builds, the two names cut at the first NUL byte.
  \<open>payload\<close> is the encoding of an option without the panic, \<open>encodeOne\<close> the bytes
  \<open>DHCPOptions.Encode\<close> writes for one key.
\<close>

definition canonIP :: "IP \<Rightarrow> IP" where
  "canonIP ip = IPv4 (To4 ip ! 0) (To4 ip ! 1) (To4 ip ! 2) (To4 ip ! 3)"

fun canonOption :: "DHCPOption \<Rightarrow> DHCPOption" where
  "canonOption (IPDHCPOption v) = IPDHCPOption (map canonIP v)"
| "canonOption opt = opt"

fun payload :: "DHCPOption \<Rightarrow> bytes" where
  "payload (IPDHCPOption v) = concat (map (\<lambda>ip. take 4 (To4 ip)) v)"
| "payload (Uint8DHCPOption v) = v"
| "payload (Uint16DHCPOption v) = concat (map be16 v)"
| "payload (StringDHCPOption v) = v"
| "payload (DurationDHCPOption v) = be32 (word_of_int (v sdiv Second))"

definition normalHeader :: "BootpHeader \<Rightarrow> BootpHeader" where
  "normalHeader h =
     h\<lparr>ClientIP := canonIP (ClientIP h), YourIP := canonIP (YourIP h),
       ServerIP := canonIP (ServerIP h), RelayAgentIP := canonIP (RelayAgentIP h),
       ServerName := cstringToGo (ServerName h), FileName := cstringToGo (FileName h)\<rparr>"

definition encodeOne :: "DHCPOptions \<Rightarrow> DHCPOptionCode \<Rightarrow> bytes" where
  "encodeOne options code =
     (case options code of
        None \<Rightarrow> []
      | Some opt \<Rightarrow> [code, of_nat (length (payload opt))] @ payload opt)"

text \<open>
  An OFFER as \<open>handleDiscover\<close> builds it, with the server's address in the 4-byte form
  and a server name.
\<close>

definition exampleOffer :: DHCPMessage where
  "exampleOffer =
     \<lparr>BootpHeader = clientHeader\<lparr>BootpOperation := BootReply, YourIP := IPv4 192 168 99 4,
                                 ServerIP := [192, 168, 99, 1], ServerName := [100, 104, 99, 112]\<rparr>,
      Options = [DHCPMessageTypeOptionCode \<mapsto> Uint8DHCPOption [DHCPOffer],
                 ServerIdentifierOptionCode \<mapsto> IPDHCPOption [[192, 168, 99, 1]],
                 IPAddressLeaseTimeOptionCode \<mapsto> DurationDHCPOption (86400 * Second),
                 MaximumDHCPMessageSizeOptionCode \<mapsto> Uint16DHCPOption [576]]\<rparr>"

declare DecodeDHCPOptions_loop.simps [simp del]

section \<open>Big-endian integers\<close>

lemmas OptionCode_defs =
  PadOptionCode_def SubnetMaskOptionCode_def TimeOffsetOptionCode_def RouterOptionCode_def
  TimeServerOptionCode_def NameServerOptionCode_def DomainNameServerOptionCode_def
  HostNameOptionCode_def DomainNameOptionCode_def IPForwardingEnableOptionCode_def
  InterfaceMTUOptionCode_def StaticRouteOptionCode_def NTPServerOptionCode_def
  RequestIPAddressOptionCode_def IPAddressLeaseTimeOptionCode_def OptionOverloadOptionCode_def
  DHCPMessageTypeOptionCode_def ServerIdentifierOptionCode_def
  ParameterRequestListOptionCode_def MessageOptionCode_def
  MaximumDHCPMessageSizeOptionCode_def RenewalTimeValueOptionCode_def
  RebindingTimeValueOptionCode_def VendorClassIdentifierOptionCode_def
  ClientIdentifierOptionCode_def EndOptionCode_def


lemma bit_byte_high:
  "bit (b :: byte) (8 + n) = False" "bit (b :: byte) (16 + n) = False"
  "bit (b :: byte) (24 + n) = False"
  by (auto dest: bit_imp_le_length)

lemma from_be32_be32:
  "from_be32 (ucast (drop_bit 24 w)) (ucast (drop_bit 16 w)) (ucast (drop_bit 8 w)) (ucast w) = w"
  unfolding from_be32_def
proof (rule bit_word_eqI)
  fix n assume n: "n < LENGTH(32)"
  consider "n < 8" | "8 \<le> n \<and> n < 16" | "16 \<le> n \<and> n < 24" | "24 \<le> n \<and> n < 32"
    using n by force
  then show "bit (push_bit 24 (ucast (ucast (drop_bit 24 w :: 32 word) :: byte)) OR
            push_bit 16 (ucast (ucast (drop_bit 16 w) :: byte)) OR
            push_bit 8 (ucast (ucast (drop_bit 8 w) :: byte)) OR ucast (ucast w :: byte) :: 32 word) n
          = bit w n"
    by cases (auto simp add: bit_simps)
qed

lemma be32_from_be32: "be32 (from_be32 a b c d) = [a, b, c, d]"
  unfolding from_be32_def be32_def
  apply simp
  apply (intro conjI; rule bit_word_eqI; auto simp add: bit_simps bit_byte_high)
  done

lemma from_be16_be16: "from_be16 (ucast (drop_bit 8 w)) (ucast w) = w"
  unfolding from_be16_def
proof (rule bit_word_eqI)
  fix n assume n: "n < LENGTH(16)"
  consider "n < 8" | "8 \<le> n \<and> n < 16"
    using n by force
  then show "bit (push_bit 8 (ucast (ucast (drop_bit 8 w :: 16 word) :: byte))
               OR ucast (ucast w :: byte) :: 16 word) n = bit w n"
    by cases (auto simp add: bit_simps)
qed

lemma be16_from_be16: "be16 (from_be16 a b) = [a, b]"
  unfolding from_be16_def be16_def
  apply simp
  apply (intro conjI; rule bit_word_eqI; auto simp add: bit_simps bit_byte_high)
  done

section \<open>The codec of the options\<close>

lemma To4_length: "To4 ip \<noteq> [] \<Longrightarrow> length (To4 ip) = 4"
  by (auto simp add: To4_def split: if_splits)

lemma list4: "length xs = 4 \<Longrightarrow> [xs ! 0, xs ! Suc 0, xs ! 2, xs ! 3] = xs"
  by (auto simp add: list_eq_iff_nth_eq less_Suc_eq numeral_eq_Suc)


lemma Equal_canonIP: "To4 ip \<noteq> [] \<Longrightarrow> Equal ip (canonIP ip)"
proof -
  assume a: "To4 ip \<noteq> []"
  then consider "length ip = 4" | "length ip = 16" "take 12 ip = v4InV6Prefix"
    by (auto simp add: To4_def split: if_splits)
  then show ?thesis
  proof cases
    case 1
    then have "To4 ip = ip" by (simp add: To4_def)
    with 1 show ?thesis
      by (simp add: Equal_def canonIP_def IPv4_def v4InV6Prefix_def list4)
  next
    case 2
    then have t: "To4 ip = drop 12 ip" by (simp add: To4_def)
    have "length (drop 12 ip) = 4" using 2 by simp
    then have "[drop 12 ip ! 0, drop 12 ip ! Suc 0, drop 12 ip ! 2, drop 12 ip ! 3] = drop 12 ip"
      by (rule list4)
    then have "canonIP ip = take 12 ip @ drop 12 ip"
      unfolding canonIP_def IPv4_def t 2(2) by simp
    then have "canonIP ip = ip" by simp
    then show ?thesis by (simp add: Equal_def)
  qed
qed

lemma nth_concat_chunks:
  assumes "\<forall>x \<in> set xs. length (f x) = n" "i < length xs" "k < n"
  shows "concat (map f xs) ! (i * n + k) = f (xs ! i) ! k"
  using assms
proof (induction xs arbitrary: i)
  case Nil
  then show ?case by simp
next
  case (Cons x xs)
  show ?case
  proof (cases i)
    case 0
    with Cons.prems show ?thesis by (simp add: nth_append)
  next
    case (Suc j)
    with Cons.prems have "concat (map f xs) ! (j * n + k) = f (xs ! j) ! k"
      by (intro Cons.IH) auto
    with Suc Cons.prems show ?thesis by (simp add: nth_append)
  qed
qed

lemma length_concat_chunks:
  "\<forall>x \<in> set xs. length (f x) = n \<Longrightarrow> length (concat (map f xs)) = length xs * n"
  by (induction xs) auto

lemma IPDHCPOption_roundtrip:
  assumes "list_all (\<lambda>ip. To4 ip \<noteq> []) v"
  shows "IPDHCPOption_Encode v = Inr (payload (IPDHCPOption v))"
    and "IPDHCPOption_Decode (payload (IPDHCPOption v)) = Some (IPDHCPOption (map canonIP v))"
proof -
  show "IPDHCPOption_Encode v = Inr (payload (IPDHCPOption v))"
    using assms by (induction v) auto
  let ?f = "\<lambda>ip. take 4 (To4 ip)"
  have len: "\<forall>ip \<in> set v. length (?f ip) = 4"
    using assms by (auto simp add: list_all_iff To4_length)
  then have l: "length (concat (map ?f v)) = length v * 4"
    by (rule length_concat_chunks)
  have "map (\<lambda>i. IPv4 (concat (map ?f v) ! (i * 4)) (concat (map ?f v) ! (i * 4 + 1))
                 (concat (map ?f v) ! (i * 4 + 2)) (concat (map ?f v) ! (i * 4 + 3)))
          [0 ..< length v] = map canonIP v"
  proof (rule nth_equalityI)
    show "length (map (\<lambda>i. IPv4 (concat (map ?f v) ! (i * 4)) (concat (map ?f v) ! (i * 4 + 1))
                 (concat (map ?f v) ! (i * 4 + 2)) (concat (map ?f v) ! (i * 4 + 3)))
          [0 ..< length v]) = length (map canonIP v)" by simp
  next
    fix i assume "i < length (map (\<lambda>i. IPv4 (concat (map ?f v) ! (i * 4)) (concat (map ?f v) ! (i * 4 + 1))
                 (concat (map ?f v) ! (i * 4 + 2)) (concat (map ?f v) ! (i * 4 + 3)))
          [0 ..< length v])"
    then have i: "i < length v" by simp
    then have t: "To4 (v ! i) \<noteq> []" using assms by (simp add: list_all_length)
    have "\<And>k. k < 4 \<Longrightarrow> concat (map ?f v) ! (i * 4 + k) = To4 (v ! i) ! k"
      using nth_concat_chunks[OF len i] To4_length[OF t] by simp
    from this[of 0] this[of 1] this[of 2] this[of 3] i
    show "map (\<lambda>i. IPv4 (concat (map ?f v) ! (i * 4)) (concat (map ?f v) ! (i * 4 + 1))
                 (concat (map ?f v) ! (i * 4 + 2)) (concat (map ?f v) ! (i * 4 + 3)))
          [0 ..< length v] ! i = map canonIP v ! i"
      by (simp add: canonIP_def)
  qed
  then show "IPDHCPOption_Decode (payload (IPDHCPOption v)) = Some (IPDHCPOption (map canonIP v))"
    by (simp add: IPDHCPOption_Decode_def l)
qed

lemma length_be16: "length (be16 w) = 2"
  by (simp add: be16_def)

lemma Uint16DHCPOption_roundtrip:
  "Uint16DHCPOption_Decode (payload (Uint16DHCPOption v)) = Some (Uint16DHCPOption v)"
proof -
  have len: "\<forall>w \<in> set v. length (be16 w) = 2" by (simp add: length_be16)
  then have l: "length (concat (map be16 v)) = length v * 2"
    by (rule length_concat_chunks)
  have "map (\<lambda>i. from_be16 (concat (map be16 v) ! (i * 2)) (concat (map be16 v) ! (i * 2 + 1)))
          [0 ..< length v] = v"
  proof (rule nth_equalityI)
    show "length (map (\<lambda>i. from_be16 (concat (map be16 v) ! (i * 2)) (concat (map be16 v) ! (i * 2 + 1)))
          [0 ..< length v]) = length v" by simp
  next
    fix i assume "i < length (map (\<lambda>i. from_be16 (concat (map be16 v) ! (i * 2)) (concat (map be16 v) ! (i * 2 + 1)))
          [0 ..< length v])"
    then have i: "i < length v" by simp
    have "\<And>k. k < 2 \<Longrightarrow> concat (map be16 v) ! (i * 2 + k) = be16 (v ! i) ! k"
      using nth_concat_chunks[OF len i] by simp
    from this[of 0] this[of 1] i
    show "map (\<lambda>i. from_be16 (concat (map be16 v) ! (i * 2)) (concat (map be16 v) ! (i * 2 + 1)))
          [0 ..< length v] ! i = v ! i"
      by (simp add: be16_def from_be16_be16)
  qed
  then show ?thesis
    by (simp add: Uint16DHCPOption_Decode_def l)
qed

lemma seconds_sdiv: "0 \<le> d \<Longrightarrow> d mod Second = 0 \<Longrightarrow> (d sdiv Second) * Second = d \<and> 0 \<le> d sdiv Second"
  by (auto simp add: signed_divide_int_def Second_def sgn_if)

lemma DurationDHCPOption_roundtrip:
  assumes "0 \<le> d" "d < 2 ^ 32 * Second" "d mod Second = 0"
  shows "DurationDHCPOption_Decode (payload (DurationDHCPOption d)) = Some (DurationDHCPOption d)"
proof -
  let ?k = "d sdiv Second"
  have k: "?k * Second = d" "0 \<le> ?k" using seconds_sdiv[OF assms(1,3)] by simp_all
  then have "?k < 2 ^ 32" using assms(2) by (simp add: Second_def)
  then have "uint (word_of_int ?k :: 32 word) = ?k"
    using k(2) by (simp add: uint_word_of_int take_bit_int_eq_self)
  then show ?thesis
    by (simp add: DurationDHCPOption_Decode_def be32_def from_be32_be32 k)
qed


lemma wellformed_option_codec:
  assumes "wellformed_option code opt"
  shows "DHCPOption_Encode opt = Inr (payload opt)"
    and "length (payload opt) \<le> 255"
    and "decodeOption code (payload opt) = Inr (Some (canonOption opt))"
proof -
  show "DHCPOption_Encode opt = Inr (payload opt)"
    using assms by (cases opt) (simp_all add: wellformed_option_def IPDHCPOption_roundtrip(1))
  show "length (payload opt) \<le> 255"
  proof (cases opt)
    case (IPDHCPOption v)
    with assms have "\<forall>ip \<in> set v. length (take 4 (To4 ip)) = 4"
      by (auto simp add: wellformed_option_def list_all_iff To4_length)
    from length_concat_chunks[OF this] IPDHCPOption assms show ?thesis
      by (simp add: wellformed_option_def)
  next
    case (Uint16DHCPOption v)
    have "\<forall>w \<in> set v. length (be16 w) = 2" by (simp add: length_be16)
    from length_concat_chunks[OF this] Uint16DHCPOption assms show ?thesis
      by (simp add: wellformed_option_def)
  next
    case (DurationDHCPOption d)
    then show ?thesis by (simp add: be32_def)
  qed (use assms in \<open>simp_all add: wellformed_option_def\<close>)
  show "decodeOption code (payload opt) = Inr (Some (canonOption opt))"
  proof (cases opt)
    case (IPDHCPOption v)
    with assms IPDHCPOption_roundtrip(2)[of v] show ?thesis
      by (simp add: wellformed_option_def decodeOption_def)
  next
    case (Uint16DHCPOption v)
    with assms Uint16DHCPOption_roundtrip[of v] show ?thesis
      by (simp add: wellformed_option_def decodeOption_def)
  next
    case (DurationDHCPOption d)
    with assms DurationDHCPOption_roundtrip[of d] show ?thesis
      by (simp add: wellformed_option_def decodeOption_def)
  qed (use assms in \<open>simp_all add: wellformed_option_def decodeOption_def
         Uint8DHCPOption_Decode_def StringDHCPOption_Decode_def\<close>)
qed

lemma wellformed_option_code:
  assumes "wellformed_option code opt"
  shows "code \<noteq> PadOptionCode" and "code \<noteq> EndOptionCode"
proof -
  from assms have "optionKind code \<noteq> None"
    by (cases opt) (simp_all add: wellformed_option_def)
  then show "code \<noteq> PadOptionCode" and "code \<noteq> EndOptionCode"
    by (auto simp add: optionKind_def OptionCode_defs split: if_splits)
qed

lemma DHCPOptions_Encode_loop_wellformed:
  assumes "\<forall>code \<in> set order. \<exists>opt. options code = Some opt \<and> wellformed_option code opt"
  shows "DHCPOptions_Encode_loop order options buffer =
           Inr (Inr (buffer @ concat (map (encodeOne options) order) @ [EndOptionCode]))"
  using assms
proof (induction order arbitrary: buffer)
  case Nil
  then show ?case by simp
next
  case (Cons code order)
  then obtain opt where opt: "options code = Some opt" "wellformed_option code opt"
    by auto
  from wellformed_option_codec[OF opt(2)] wellformed_option_code[OF opt(2)] opt(1) Cons
  show ?case
    by (simp add: encodeOne_def)
qed

lemma DecodeDHCPOptions_loop_step:
  assumes "i + 1 < length data" and "data ! i = code"
    and "code \<noteq> PadOptionCode" and "code \<noteq> EndOptionCode"
    and "unat (data ! (i + 1)) = n" and "n \<le> length data - (i + 1) - 1"
    and "decodeOption code (slice data (i + 2) (i + 2 + n)) = Inr (Some opt)"
  shows "DecodeDHCPOptions_loop data i out =
           DecodeDHCPOptions_loop data (i + n + 2) (out(code \<mapsto> opt))"
  using assms
  by (subst DecodeDHCPOptions_loop.simps) (simp add: Let_def add.commute add.left_commute)

lemma DecodeDHCPOptions_loop_wellformed:
  assumes "\<forall>code \<in> set order. \<exists>opt. options code = Some opt \<and> wellformed_option code opt"
  shows "DecodeDHCPOptions_loop (pre @ concat (map (encodeOne options) order) @ [EndOptionCode])
           (length pre) out =
         Inr (Inr (\<lambda>code. if code \<in> set order then map_option canonOption (options code)
                           else out code))"
  using assms
proof (induction order arbitrary: pre out)
  case Nil
  show ?case
    by (subst DecodeDHCPOptions_loop.simps) (simp add: OptionCode_defs)
next
  case (Cons code order)
  then obtain opt where opt: "options code = Some opt" "wellformed_option code opt"
    by auto
  let ?P = "payload opt"
  let ?L = "of_nat (length ?P) :: byte"
  let ?rest = "concat (map (encodeOne options) order) @ [EndOptionCode]"
  let ?pre' = "pre @ [code, ?L] @ ?P"
  have data: "pre @ concat (map (encodeOne options) (code # order)) @ [EndOptionCode]
      = ?pre' @ ?rest"
    by (simp add: encodeOne_def opt(1))
  have len: "length ?P \<le> 255" by (rule wellformed_option_codec(2)[OF opt(2)])
  have code: "code \<noteq> PadOptionCode" "code \<noteq> EndOptionCode"
    by (rule wellformed_option_code[OF opt(2)])+
  have step: "DecodeDHCPOptions_loop (?pre' @ ?rest) (length pre) out =
      DecodeDHCPOptions_loop (?pre' @ ?rest) (length pre + length ?P + 2)
        (out(code \<mapsto> canonOption opt))"
  proof (rule DecodeDHCPOptions_loop_step[OF _ _ code])
    show "length pre + 1 < length (?pre' @ ?rest)" by simp
    show "(?pre' @ ?rest) ! length pre = code" by (simp add: nth_append)
    show "unat ((?pre' @ ?rest) ! (length pre + 1)) = length ?P"
      using len by (simp add: nth_append unat_of_nat)
    show "length ?P \<le> length (?pre' @ ?rest) - (length pre + 1) - 1" by simp
    show "decodeOption code (slice (?pre' @ ?rest) (length pre + 2) (length pre + 2 + length ?P))
        = Inr (Some (canonOption opt))"
      by (simp add: slice_def wellformed_option_codec(3)[OF opt(2)])
  qed
  have "length pre + length ?P + 2 = length ?pre'" by simp
  moreover have "DecodeDHCPOptions_loop (?pre' @ ?rest) (length ?pre')
        (out(code \<mapsto> canonOption opt)) =
      Inr (Inr (\<lambda>c. if c \<in> set order then map_option canonOption (options c)
                     else (out(code \<mapsto> canonOption opt)) c))"
    using Cons.prems by (intro Cons.IH) simp
  moreover have "(\<lambda>c. if c \<in> set order then map_option canonOption (options c)
                     else (out(code \<mapsto> canonOption opt)) c)
     = (\<lambda>c. if c \<in> set (code # order) then map_option canonOption (options c) else out c)"
    by (auto simp add: fun_eq_iff opt(1))
  ultimately show ?case
    unfolding data using step by simp
qed


section \<open>The codec of the header\<close>

lemma length_gocopy: "length (gocopy dst src) = length dst"
  by (simp add: gocopy_def)

lemma gocopy_pad: "length src \<le> n \<Longrightarrow> gocopy (replicate n z) src = src @ replicate (n - length src) z"
  by (simp add: gocopy_def)

lemma cstringToGo_zeros: "cstringToGo (replicate k 0) = []"
  by (cases k) simp_all

lemma cstringToGo_pad: "cstringToGo (xs @ replicate k 0) = cstringToGo xs"
  by (induction xs) (simp_all add: cstringToGo_zeros)

lemma ipToArray_To4: "To4 ip \<noteq> [] \<Longrightarrow> ipToArray ip = To4 ip"
  by (simp add: ipToArray_def gocopy_def To4_length)

lemma length_ipToArray: "length (ipToArray ip) = 4"
  by (simp add: ipToArray_def length_gocopy)

lemma raw_lengths:
  "length (raw_ClientIP (raw h)) = 4" "length (raw_YourIP (raw h)) = 4"
  "length (raw_ServerIP (raw h)) = 4" "length (raw_RelayAgentIP (raw h)) = 4"
  "length (raw_ClientHwAddr (raw h)) = 16" "length (raw_ServerName (raw h)) = 64"
  "length (raw_FileName (raw h)) = 128"
  by (simp_all add: raw_def Let_def length_ipToArray length_gocopy)

lemma length_write_rawBootpHeader:
  assumes "length (raw_ClientIP r) = 4" "length (raw_YourIP r) = 4"
    "length (raw_ServerIP r) = 4" "length (raw_RelayAgentIP r) = 4"
    "length (raw_ClientHwAddr r) = 16" "length (raw_ServerName r) = 64"
    "length (raw_FileName r) = 128"
  shows "length (write_rawBootpHeader r) = 236"
  using assms by (simp add: write_rawBootpHeader_def be32_def be16_def)

lemma read_write_rawBootpHeader:
  assumes "length (raw_ClientIP r) = 4" "length (raw_YourIP r) = 4"
    "length (raw_ServerIP r) = 4" "length (raw_RelayAgentIP r) = 4"
    "length (raw_ClientHwAddr r) = 16" "length (raw_ServerName r) = 64"
    "length (raw_FileName r) = 128"
  shows "read_rawBootpHeader (write_rawBootpHeader r @ rest) = Inr r"
  using assms
  by (cases r)
    (simp add: read_rawBootpHeader_def write_rawBootpHeader_def bootpHeaderSize_def slice_def
      be32_def be16_def from_be32_be32 from_be16_be16)

lemma transform_raw:
  assumes "wellformed_header h"
  shows "transform (raw h) = (normalHeader h, None)"
proof -
  let ?n = "length (ClientHwAddr h)"
  have n: "1 \<le> ?n" "?n \<le> 16" using assms by (simp_all add: wellformed_header_def)
  then have hw: "unat (of_nat ?n :: byte) = ?n" by (simp add: unat_of_nat)
  have mac: "gocopy (replicate ?n 0)
               (take ?n (gocopy (replicate 16 0) (ClientHwAddr h))) = ClientHwAddr h"
    using n by (simp add: gocopy_def)
  let ?k = "Seconds h sdiv Second"
  have k: "?k * Second = Seconds h" "0 \<le> ?k"
    using seconds_sdiv[of "Seconds h"] assms by (simp_all add: wellformed_header_def)
  then have "?k < 2 ^ 16" using assms by (simp add: wellformed_header_def Second_def)
  then have secs: "uint (word_of_int ?k :: 16 word) * Second = Seconds h"
    using k by (simp add: uint_word_of_int take_bit_int_eq_self)
  have ips: "\<And>ip. To4 ip \<noteq> [] \<Longrightarrow>
      IPv4 (ipToArray ip ! 0) (ipToArray ip ! Suc 0) (ipToArray ip ! 2) (ipToArray ip ! 3)
        = canonIP ip"
    by (simp add: ipToArray_To4 canonIP_def)
  have names: "cstringToGo (gocopy (replicate 64 0) (ServerName h)) = cstringToGo (ServerName h)"
    "cstringToGo (gocopy (replicate 128 0) (FileName h)) = cstringToGo (FileName h)"
    using assms by (simp_all add: wellformed_header_def gocopy_pad cstringToGo_pad)
  have op: "BootpOperation h = BootRequest \<or> BootpOperation h = BootReply"
    using assms by (auto simp add: wellformed_header_def)
  have ip4: "To4 (ClientIP h) \<noteq> []" "To4 (YourIP h) \<noteq> []" "To4 (ServerIP h) \<noteq> []"
    "To4 (RelayAgentIP h) \<noteq> []"
    using assms by (simp_all add: wellformed_header_def)
  have nonempty: "ClientHwAddr h \<noteq> []" using n by auto
  show ?thesis
    using n(2) op nonempty mac ips[OF ip4(1)] ips[OF ip4(2)] ips[OF ip4(3)] ips[OF ip4(4)]
      hw secs names
    by (cases h) (auto simp add: transform_def raw_def Let_def normalHeader_def)
qed


lemma same_option_canonOption:
  assumes "wellformed_option code opt"
  shows "same_option opt (canonOption opt)"
proof (cases opt)
  case (IPDHCPOption v)
  with assms have "\<forall>ip \<in> set v. To4 ip \<noteq> []"
    by (simp add: wellformed_option_def list_all_iff)
  then have "list_all2 Equal v (map canonIP v)"
    by (simp add: list_all2_conv_all_nth Equal_canonIP)
  with IPDHCPOption show ?thesis by (simp add: same_option_def)
qed (simp_all add: same_option_def)

lemma same_header_normalHeader:
  assumes "wellformed_header h"
  shows "same_header h (normalHeader h)"
  using assms
  by (simp add: same_header_def normalHeader_def wellformed_header_def Equal_canonIP)

lemma UnmarshallDHCPMessage_bytes:
  assumes lens: "length (raw_ClientIP r) = 4" "length (raw_YourIP r) = 4"
    "length (raw_ServerIP r) = 4" "length (raw_RelayAgentIP r) = 4"
    "length (raw_ClientHwAddr r) = 16" "length (raw_ServerName r) = 64"
    "length (raw_FileName r) = 128"
    and opts: "DecodeDHCPOptions opt = Inr (Inr options)"
    and tr: "transform r = (bootp, None)"
  shows "UnmarshallDHCPMessage ((write_rawBootpHeader r @ be32 dhcpMagicCookie) @ opt)
           = Inr (\<lparr>BootpHeader = bootp, Options = options\<rparr>, None)"
proof -
  let ?W = "write_rawBootpHeader r"
  let ?msg = "(?W @ be32 dhcpMagicCookie) @ opt"
  have W: "length ?W = 236" by (rule length_write_rawBootpHeader[OF lens])
  have rd: "read_rawBootpHeader ?msg = Inr r"
    using read_write_rawBootpHeader[OF lens, of "be32 dhcpMagicCookie @ opt"] by simp
  have cookie: "from_be32 (?msg ! 236) (?msg ! 237) (?msg ! 238) (?msg ! 239) = dhcpMagicCookie"
    using W by (simp add: nth_append be32_def from_be32_be32)
  have long: "\<not> length ?msg < bootpHeaderSize + 4"
    using W by (simp add: bootpHeaderSize_def be32_def)
  have rest: "drop (bootpHeaderSize + 4) ?msg = opt"
    using W by (simp add: bootpHeaderSize_def be32_def)
  show ?thesis
    unfolding UnmarshallDHCPMessage_def
    by (simp only: rd cookie long rest opts tr sum.case if_False simp_thms prod.case option.case)
qed

section \<open>The round trip\<close>

text \<open>
  C1. For a well-formed message \<open>m\<close> and every order \<open>order\<close> in which \<open>range\<close> may
  visit the keys of its options, \<open>MarshallDHCPMessage\<close> returns bytes and no error,
  and \<open>UnmarshallDHCPMessage\<close> of these bytes returns, with no error, a message that
  is \<open>m\<close> again: the same fields, the same addresses, the names cut at the first NUL
  byte, and under every code the same option.
\<close>

theorem marshal_unmarshal_roundtrip:
  assumes wf: "wellformed m" and order: "set order = dom (Options m)"
  shows "\<exists>bytes m'. MarshallDHCPMessage order m = Inr (bytes, None)
           \<and> UnmarshallDHCPMessage bytes = Inr (m', None)
           \<and> same_message m m'"
proof -
  let ?h = "BootpHeader m"
  let ?O = "concat (map (encodeOne (Options m)) order) @ [EndOptionCode]"
  let ?options = "\<lambda>code. if code \<in> set order then map_option canonOption (Options m code)
                          else None"
  have wfh: "wellformed_header ?h" using wf by (simp add: wellformed_def)
  have wfo: "\<And>code opt. Options m code = Some opt \<Longrightarrow> wellformed_option code opt"
  proof -
    fix code opt assume "Options m code = Some opt"
    moreover from wf have "case Options m code of None \<Rightarrow> True
        | Some opt \<Rightarrow> wellformed_option code opt"
      by (simp add: wellformed_def)
    ultimately show "wellformed_option code opt" by simp
  qed
  have all: "\<forall>code \<in> set order. \<exists>opt. Options m code = Some opt \<and> wellformed_option code opt"
    using order wfo by auto
  have enc: "DHCPOptions_Encode order (Options m) = Inr (Inr ?O)"
    using DHCPOptions_Encode_loop_wellformed[OF all, of "[]"] by (simp add: DHCPOptions_Encode_def)
  have marshal: "MarshallDHCPMessage order m =
      Inr ((write_rawBootpHeader (raw ?h) @ be32 dhcpMagicCookie) @ ?O, None)"
    by (simp add: MarshallDHCPMessage_def enc Let_def)
  have dec: "DecodeDHCPOptions ?O = Inr (Inr ?options)"
    using DecodeDHCPOptions_loop_wellformed[OF all, of "[]" Map.empty]
    by (simp add: DecodeDHCPOptions_def)
  have unmarshal: "UnmarshallDHCPMessage ((write_rawBootpHeader (raw ?h) @ be32 dhcpMagicCookie) @ ?O)
      = Inr (\<lparr>BootpHeader = normalHeader ?h, Options = ?options\<rparr>, None)"
    by (rule UnmarshallDHCPMessage_bytes[OF raw_lengths dec transform_raw[OF wfh]])
  have "rel_option same_option (Options m code) (?options code)" for code
  proof (cases "Options m code")
    case None
    then have "code \<notin> set order" using order by auto
    with None show ?thesis by simp
  next
    case (Some opt)
    then have "code \<in> set order" using order by auto
    with Some same_option_canonOption[OF wfo[OF Some]] show ?thesis by simp
  qed
  then have "same_message m \<lparr>BootpHeader = normalHeader ?h, Options = ?options\<rparr>"
    using same_header_normalHeader[OF wfh] by (simp add: same_message_def)
  with marshal unmarshal show ?thesis by blast
qed

theorem marshal_unmarshal_roundtrip_witness:
  "\<exists>bytes m'.
     MarshallDHCPMessage [IPAddressLeaseTimeOptionCode, MaximumDHCPMessageSizeOptionCode,
         ServerIdentifierOptionCode, DHCPMessageTypeOptionCode] exampleOffer = Inr (bytes, None)
     \<and> UnmarshallDHCPMessage bytes = Inr (m', None)
     \<and> same_message exampleOffer m'"
proof (rule marshal_unmarshal_roundtrip)
  have "wellformed_header (BootpHeader exampleOffer)"
    by (simp add: wellformed_header_def exampleOffer_def clientHeader_def BootRequest_def
        BootReply_def To4_def IPv4_def v4InV6Prefix_def Second_def)
  moreover have "case Options exampleOffer code of None \<Rightarrow> True
      | Some opt \<Rightarrow> wellformed_option code opt" for code
    by (simp add: exampleOffer_def wellformed_option_def optionKind_def OptionCode_defs
        To4_def Second_def)
  ultimately show "wellformed exampleOffer"
    by (simp add: wellformed_def)
  show "set [IPAddressLeaseTimeOptionCode, MaximumDHCPMessageSizeOptionCode,
         ServerIdentifierOptionCode, DHCPMessageTypeOptionCode] = dom (Options exampleOffer)"
    by (auto simp add: exampleOffer_def)
qed

section \<open>The free indices of a pool\<close>

text \<open>
  For \<open>End\<close> below \<open>0xFFFFFFFF\<close> the loop of \<open>freeIndices\<close> returns, with the keys of
  \<open>Start .. End\<close> that hold no lease, in increasing order.
\<close>

lemma freeIndices_loop_eq:
  assumes "unat (End pool) < 2 ^ 32 - 1" and "unat i \<le> Suc (unat (End pool))"
  shows "freeIndices_loop pool i result =
           Some (result @ filter (\<lambda>k. Leases pool k = None)
                            (map of_nat [unat i ..< Suc (unat (End pool))]))"
  using assms
proof (induction "Suc (unat (End pool)) - unat i" arbitrary: i result)
  case 0
  then have stop: "unat i = Suc (unat (End pool))" by simp
  then have "\<not> i \<le> End pool" by (simp add: word_le_nat_alt)
  then show ?case using stop
    by (subst freeIndices_loop.simps) simp
next
  case (Suc n)
  then have le: "unat i \<le> unat (End pool)" by simp
  then have ile: "i \<le> End pool" by (simp add: word_le_nat_alt)
  have "unat i + 1 < 2 ^ 32" using le Suc.prems(1) by simp
  then have u: "unat (i + 1) = Suc (unat i)"
    by (simp add: unat_word_ariths)
  have n: "n = Suc (unat (End pool)) - unat (i + 1)" using Suc.hyps(2) u by simp
  have b: "unat (i + 1) \<le> Suc (unat (End pool))" using le u by simp
  have up: "[unat i ..< Suc (unat (End pool))] = unat i # [unat (i + 1) ..< Suc (unat (End pool))]"
    using le u by (simp add: upt_conv_Cons)
  show ?case
    apply (subst freeIndices_loop.simps)
    apply (simp only: ile if_True Suc.hyps(1)[OF n Suc.prems(1) b] up)
    apply simp
    done
qed

lemma freeIndices_eq:
  assumes "unat (End pool) < 2 ^ 32 - 1"
  shows "freeIndices pool =
           Some (filter (\<lambda>k. Leases pool k = None)
                   (map of_nat [unat (Start pool) ..< Suc (unat (End pool))]))"
proof (cases "Start pool \<le> End pool")
  case True
  then have "unat (Start pool) \<le> Suc (unat (End pool))" by (simp add: word_le_nat_alt)
  from freeIndices_loop_eq[OF assms this] show ?thesis by (simp add: freeIndices_def)
next
  case False
  then have "unat (End pool) < unat (Start pool)" by (simp add: word_le_nat_alt)
  then have "[unat (Start pool) ..< Suc (unat (End pool))] = []" by simp
  with False show ?thesis
    unfolding freeIndices_def by (subst freeIndices_loop.simps) simp
qed

lemma freeIndices_first:
  assumes "unat (End pool) < 2 ^ 32 - 1" "Start pool \<le> End pool"
    and "Leases pool (Start pool) = None"
  shows "\<exists>rest. freeIndices pool = Some (Start pool # rest)"
proof -
  have "unat (Start pool) \<le> unat (End pool)" using assms(2) by (simp add: word_le_nat_alt)
  then have "[unat (Start pool) ..< Suc (unat (End pool))]
      = unat (Start pool) # [Suc (unat (Start pool)) ..< Suc (unat (End pool))]"
    by (simp add: upt_conv_Cons)
  then show ?thesis using assms(3) by (simp add: freeIndices_eq[OF assms(1)])
qed

text \<open>So \<open>handleDiscover\<close> returns (a result or a panic) for every such pool.\<close>

lemma handleDiscover_returns:
  assumes "unat (End pool) < 2 ^ 32 - 1"
  shows "\<exists>r. handleDiscover order rnd msg pool = Some r"
  by (simp add: handleDiscover_def Let_def freeIndices_eq[OF assms]
      split: option.split sum.split)

lemma freeIndices_examplePool: "\<exists>rest. freeIndices examplePool = Some (2 # rest)"
proof -
  have "unat (End examplePool) < 2 ^ 32 - 1" "Start examplePool \<le> End examplePool"
    "Leases examplePool (Start examplePool) = None"
    by (simp_all add: examplePool_def)
  from freeIndices_first[OF this] show ?thesis
    by (simp add: examplePool_def)
qed

lemma handleDiscover_example:
  "\<exists>offer.
     handleDiscover [] 0 exampleDiscover examplePool =
       Some (Inr (examplePool\<lparr>Leases := [2 \<mapsto> exampleLease]\<rparr>, [offer]))
     \<and> YourIP (BootpHeader (Message offer)) = IPv4 192 168 99 4"
proof -
  obtain rest where free: "freeIndices examplePool = Some (2 # rest)"
    using freeIndices_examplePool by blast
  have a2: "addressFromIndex examplePool 2 = Inr (IPv4 192 168 99 4)"
    by (simp add: addressFromIndex_def examplePool_def ip_uint32_def)
  have pool: "Algorithm examplePool = Sequential" "Leases examplePool = Map.empty"
     "Mask (Network examplePool) = [255, 255, 255, 0]"
    by (simp_all add: examplePool_def)
  show ?thesis
    by (simp add: handleDiscover_def findClientLease_def free selectNumber_def pool a2
        leaseReply_def Let_def newClientIdentifier_def exampleDiscover_def clientHeader_def
        BuildBasicReply_def exampleLease_def)
qed

section \<open>Addresses of leases\<close>

text \<open>
  C2. The claim: the lease stored at key \<open>i\<close> has the address \<open>network base OR i\<close>,
  so every lease's address lies between the addresses of \<open>Start\<close> and \<open>End\<close>.
  The code: \<open>freeIndices\<close> yields the keys \<open>Start .. End\<close> themselves, and
  \<open>addressFromIndex\<close> adds \<open>Start\<close> to the key once more. In the pool
  \<open>192.168.99.0/24\<close> with hosts 2 to 99 the first DISCOVER stores at key 2 a lease
  with the address \<open>192.168.99.4\<close> and offers that address; the key 99 has the
  address \<open>192.168.99.101\<close>, beyond the pool's last address \<open>192.168.99.99\<close>.
\<close>

theorem handleDiscover_address_adds_Start_twice:
  "\<exists>pool' offer.
     handleDiscover [] 0 exampleDiscover examplePool = Some (Inr (pool', [offer]))
     \<and> Leases pool' 2 = Some \<lparr>Address = IPv4 192 168 99 4, State = LeaseReserved,
                               LeaseID = \<lparr>ID = [], Mac = [1, 2, 3, 4, 5, 6]\<rparr>,
                               Expires = zeroTime\<rparr>
     \<and> YourIP (BootpHeader (Message offer)) = IPv4 192 168 99 4
     \<and> addressFromIndex examplePool (End examplePool) = Inr (IPv4 192 168 99 101)"
proof -
  obtain offer where
    "handleDiscover [] 0 exampleDiscover examplePool =
       Some (Inr (examplePool\<lparr>Leases := [2 \<mapsto> exampleLease]\<rparr>, [offer]))"
    "YourIP (BootpHeader (Message offer)) = IPv4 192 168 99 4"
    using handleDiscover_example by blast
  moreover have "addressFromIndex examplePool (End examplePool) = Inr (IPv4 192 168 99 101)"
    by (simp add: addressFromIndex_def examplePool_def ip_uint32_def)
  ultimately show ?thesis
    by (simp add: exampleLease_def)
qed

text \<open>
  C4. The claim: \<open>indexFromAddress\<close> fails for an address outside the pool's network
  or outside the range \<open>Start .. End\<close>. The code has no such test (its comment says
  \<open>TODO: validation\<close>): it fails only for an address that is not IPv4. For the
  pool \<open>192.168.99.0/24\<close> with hosts 2 to 99 it returns an index and no error for
  \<open>10.0.0.1\<close>, of another network, and for \<open>192.168.99.200\<close>, beyond the range.
\<close>

theorem indexFromAddress_accepts_foreign_addresses:
  "indexFromAddress examplePool (IPv4 10 0 0 1) = Inr (Inr 167772159)
   \<and> indexFromAddress examplePool (IPv4 192 168 99 200) = Inr (Inr 198)"
  by (simp add: indexFromAddress_def examplePool_def ip_uint32_def To4_def IPv4_def
      v4InV6Prefix_def)

section \<open>The message type\<close>

text \<open>
  C3. The claim: \<open>Type\<close> returns \<open>DHCPUnknown\<close> when option 53 is absent and never
  panics. The code calls \<open>opt.Data()\<close> on the missing option before it tests
  \<open>found\<close>: for a message without option 53 it panics.
\<close>

theorem Type_panics_without_option_53:
  "Type \<lparr>BootpHeader = clientHeader, Options = Map.empty\<rparr> = Inl NilDereference"
  by (simp add: Type_def)

section \<open>The receiver loop\<close>

text \<open>
  C5. The claim: a datagram that does not decode is logged and dropped, so nothing
  derived from it reaches the dispatcher's queue. The code prints the error and goes
  on to send the message on the channel (the sender's loop has \<open>continue\<close> there, the
  receiver's has not): a datagram of three bytes fails with the cookie error, and the
  zero message is sent on the channel.
\<close>

theorem UDPReceiver_pushes_undecodable_datagram:
  "UnmarshallDHCPMessage (gocopy (replicate 576 0) [1, 2, 3])
     = Inr (zeroDHCPMessage, Some InvalidCookie)
   \<and> UDPReceiver (\<lambda>i. Some exampleInterface) [Inr ([1, 2, 3], None, 2)] =
       Inr \<lparr>Printed = [UnableToParse InvalidCookie],
            Channel = [\<lparr>Message = zeroDHCPMessage, Interface = Some exampleInterface,
                        Remote = None\<rparr>],
            Closed = False\<rparr>"
proof -
  have decode: "UnmarshallDHCPMessage (gocopy (replicate 576 0) [1, 2, 3])
      = Inr (zeroDHCPMessage, Some InvalidCookie)"
    by (simp add: UnmarshallDHCPMessage_def gocopy_def read_rawBootpHeader_def
        bootpHeaderSize_def nth_append from_be32_def dhcpMagicCookie_def)
  show ?thesis
    by (simp add: UDPReceiver_def decode)
qed

section \<open>Encoding errors\<close>

text \<open>
  C8. The claim: \<open>MarshallDHCPMessage\<close> returns an error when encoding the options
  fails, as for an option of more than 255 bytes. The code: \<open>DHCPOptions.Encode\<close>
  returns the error, and \<open>MarshallDHCPMessage\<close> answers it with \<open>return nil, nil\<close>:
  no bytes and no error.
\<close>

theorem MarshallDHCPMessage_returns_no_error:
  "DHCPOptions_Encode [MessageOptionCode] (Options longMessage) = Inr (Inl OptionTooLarge)
   \<and> MarshallDHCPMessage [MessageOptionCode] longMessage = Inr ([], None)"
  by (simp add: MarshallDHCPMessage_def DHCPOptions_Encode_def longMessage_def OptionCode_defs)

section \<open>Lengths of option payloads\<close>

text \<open>
  C9, as claimed: the decoder rejects a payload of option 53 whose length is not 1.
  It does not: \<open>Uint8DHCPOption.Decode\<close> serves the codes 19, 52, 53, 55 and 61 alike
  and copies any payload; two bytes for option 53 are accepted.
\<close>

theorem decodeOption_message_type_two_bytes:
  "decodeOption DHCPMessageTypeOptionCode [1, 2] = Inr (Some (Uint8DHCPOption [1, 2]))"
  by (simp add: decodeOption_def optionKind_def OptionCode_defs Uint8DHCPOption_Decode_def)

text \<open>
  C9, amended: for the codes 1, 3, 4, 5, 6, 33, 42, 50 and 54 the decoder rejects a
  payload of one or more bytes exactly when its length is not a multiple of 4; for
  option 53 it accepts every payload of one or more bytes and copies it.
\<close>

theorem decodeOption_lengths:
  "(code \<in> {1, 3, 4, 5, 6, 33, 42, 50, 54} \<and> 0 < length data \<longrightarrow>
      ((\<exists>err. decodeOption code data = Inl err) \<longleftrightarrow> length data mod 4 \<noteq> 0))
   \<and> (0 < length data \<longrightarrow>
        decodeOption DHCPMessageTypeOptionCode data = Inr (Some (Uint8DHCPOption data)))"
  by (auto simp add: decodeOption_def optionKind_def OptionCode_defs Uint8DHCPOption_Decode_def
        IPDHCPOption_Decode_def)

theorem decodeOption_lengths_witness:
  "(\<exists>err. decodeOption 50 [192, 168, 99, 5, 0] = Inl err)
   \<and> (\<nexists>err. decodeOption 50 [192, 168, 99, 5] = Inl err)
   \<and> decodeOption DHCPMessageTypeOptionCode [3, 0] = Inr (Some (Uint8DHCPOption [3, 0]))"
  using decodeOption_lengths[of 50 "[192, 168, 99, 5, 0]"]
    decodeOption_lengths[of 50 "[192, 168, 99, 5]"]
    decodeOption_lengths[of 50 "[3, 0]"]
  by simp

section \<open>REQUEST\<close>

lemma exampleRequest_facts:
  "To4 (IPv4 a b c d) = [a, b, c, d]"
  "IPv4 a b c d \<noteq> []"
  "serverIP (Some exampleInterface) = [192, 168, 99, 1]"
  "indexFromAddress leasedPool (IPv4 192 168 99 4) = Inr (Inr 2)"
  "Leases leasedPool 2 = Some exampleLease"
  "Leases leasedPool 3 = Some otherLease"
  "4 \<le> length (Mask (Network leasedPool))"
  by (simp_all add: serverIP_def exampleInterface_def To4_def IPv4_def v4InV6Prefix_def
        indexFromAddress_def leasedPool_def examplePool_def ip_uint32_def)

text \<open>
  C6. A REQUEST whose requested address (option 50, or \<open>ciaddr\<close> without it) has the
  index of a lease of the same client, with no server identifier or this server's:
  the lease keeps its address, is \<open>LeaseInUse\<close> and expires at \<open>now + Lifetime\<close>; one
  message is sent, an ACK whose \<open>YourIP\<close> is the lease's address. (The pool's network
  is one \<open>net.ParseCIDR\<close> returned: its mask has four bytes or more.)
\<close>

theorem handleRequest_renews:
  assumes sid: "ServerIdentifier (Message msg) = Inr selectedServer"
    and same: "selectedServer = [] \<or> Equal (serverIP (Interface msg)) selectedServer"
    and req: "RequestedIP (Message msg) = Inr requested"
    and addr: "requestedIP =
                 (if requested = [] then ClientIP (BootpHeader (Message msg)) else requested)"
    and given: "\<not> (requested = [] \<and> Equal (ClientIP (BootpHeader (Message msg))) IPv4zero)"
    and idx: "indexFromAddress pool requestedIP = Inr (Inr idx)"
    and lease: "Leases pool idx = Some lease"
    and owner: "equals (LeaseID lease) (newClientIdentifier (Message msg))"
    and mask: "4 \<le> length (Mask (Network pool))"
  shows "\<exists>ack. handleRequest now msg pool =
           Inr (pool\<lparr>Leases := (Leases pool)
                   (idx \<mapsto> lease\<lparr>State := LeaseInUse, Expires := now + Lifetime pool\<rparr>)\<rparr>, [ack])
         \<and> YourIP (BootpHeader (Message ack)) = Address lease
         \<and> Options (Message ack) DHCPMessageTypeOptionCode = Some (Uint8DHCPOption [DHCPAck])"
  using assms
  by (auto simp add: handleRequest_def Let_def leaseReply_def OptionCode_defs)

theorem handleRequest_renews_witness:
  "\<exists>ack. handleRequest 1000 exampleRequest leasedPool =
           Inr (leasedPool\<lparr>Leases := (Leases leasedPool)
                  (2 \<mapsto> exampleLease\<lparr>State := LeaseInUse,
                                       Expires := 1000 + Lifetime leasedPool\<rparr>)\<rparr>, [ack])
         \<and> YourIP (BootpHeader (Message ack)) = Address exampleLease
         \<and> Options (Message ack) DHCPMessageTypeOptionCode = Some (Uint8DHCPOption [DHCPAck])"
proof -
  have sid: "ServerIdentifier (Message exampleRequest) = Inr (IPv4 192 168 99 1)"
    by (simp add: ServerIdentifier_def exampleRequest_def OptionCode_defs)
  have same: "IPv4 192 168 99 1 = []
      \<or> Equal (serverIP (Interface exampleRequest)) (IPv4 192 168 99 1)"
    by (simp add: exampleRequest_def exampleRequest_facts(3)) (simp add: Equal_def IPv4_def v4InV6Prefix_def)
  have req: "RequestedIP (Message exampleRequest) = Inr (IPv4 192 168 99 4)"
    by (simp add: RequestedIP_def exampleRequest_def OptionCode_defs)
  have addr: "IPv4 192 168 99 4 =
      (if IPv4 192 168 99 4 = [] then ClientIP (BootpHeader (Message exampleRequest))
       else IPv4 192 168 99 4)"
    by (simp add: exampleRequest_facts)
  have given: "\<not> (IPv4 192 168 99 4 = []
      \<and> Equal (ClientIP (BootpHeader (Message exampleRequest))) IPv4zero)"
    by (simp add: exampleRequest_facts)
  have owner: "equals (LeaseID exampleLease) (newClientIdentifier (Message exampleRequest))"
    by (simp add: equals_def exampleLease_def newClientIdentifier_def exampleRequest_def
        clientHeader_def)
  show ?thesis
    by (rule handleRequest_renews[OF sid same req addr given exampleRequest_facts(4)
          exampleRequest_facts(5) owner exampleRequest_facts(7)])
qed

text \<open>
  C7, as claimed: every REQUEST with the identifier of another server frees the
  client's leases. The code first returns for a REQUEST with neither option 50 nor
  \<open>ciaddr\<close>, before it looks at the server identifier: the client's lease at key 2
  stays.
\<close>

theorem handleRequest_other_server_without_address:
  "ServerIdentifier (Message bareRequestForOtherServer) = Inr (IPv4 192 168 99 250)
   \<and> \<not> Equal (serverIP (Interface bareRequestForOtherServer)) (IPv4 192 168 99 250)
   \<and> Leases leasedPool 2 = Some exampleLease
   \<and> equals (LeaseID exampleLease) (newClientIdentifier (Message bareRequestForOtherServer))
   \<and> handleRequest 1000 bareRequestForOtherServer leasedPool = Inr (leasedPool, [])"
proof -
  have sid: "ServerIdentifier (Message bareRequestForOtherServer) = Inr (IPv4 192 168 99 250)"
    by (simp add: ServerIdentifier_def bareRequestForOtherServer_def OptionCode_defs)
  have req: "RequestedIP (Message bareRequestForOtherServer) = Inr []"
    by (simp add: RequestedIP_def bareRequestForOtherServer_def OptionCode_defs)
  have other: "\<not> Equal (serverIP (Interface bareRequestForOtherServer)) (IPv4 192 168 99 250)"
    by (simp add: bareRequestForOtherServer_def exampleRequest_facts(3))
      (simp add: Equal_def IPv4_def v4InV6Prefix_def)
  have owner: "equals (LeaseID exampleLease)
      (newClientIdentifier (Message bareRequestForOtherServer))"
    by (simp add: equals_def exampleLease_def newClientIdentifier_def
        bareRequestForOtherServer_def clientHeader_def)
  have zero: "Equal (ClientIP (BootpHeader (Message bareRequestForOtherServer))) IPv4zero"
    by (simp add: bareRequestForOtherServer_def clientHeader_def IPv4zero_def Equal_def)
  have "handleRequest 1000 bareRequestForOtherServer leasedPool = Inr (leasedPool, [])"
    by (simp add: handleRequest_def sid req zero)
  then show ?thesis
    using sid other owner by (simp add: exampleRequest_facts)
qed

text \<open>
  C7, amended: a REQUEST that names its address (option 50, or a \<open>ciaddr\<close> other than
  \<open>0.0.0.0\<close>) and carries the identifier of another server frees every lease of
  that client, sends nothing, and leaves every other lease as it was.
\<close>

theorem handleRequest_other_server:
  assumes sid: "ServerIdentifier (Message msg) = Inr selectedServer"
    and present: "selectedServer \<noteq> []"
    and other: "\<not> Equal (serverIP (Interface msg)) selectedServer"
    and req: "RequestedIP (Message msg) = Inr requested"
    and given: "requested \<noteq> [] \<or> \<not> Equal (ClientIP (BootpHeader (Message msg))) IPv4zero"
  shows "\<exists>pool'. handleRequest now msg pool = Inr (pool', [])
           \<and> (\<forall>i lease. Leases pool i = Some lease \<longrightarrow>
                 Leases pool' i =
                   (if equals (LeaseID lease) (newClientIdentifier (Message msg)) then None
                    else Some lease))
           \<and> (\<forall>i. Leases pool i = None \<longrightarrow> Leases pool' i = None)"
  using assms
  by (auto simp add: handleRequest_def Let_def freeLeases_def)

theorem handleRequest_other_server_witness:
  "\<exists>pool'. handleRequest 1000 requestForOtherServer leasedPool = Inr (pool', [])
      \<and> Leases pool' 2 = None \<and> Leases pool' 3 = Some otherLease"
proof -
  have sid: "ServerIdentifier (Message requestForOtherServer) = Inr (IPv4 192 168 99 250)"
    by (simp add: ServerIdentifier_def requestForOtherServer_def OptionCode_defs)
  have present: "IPv4 192 168 99 250 \<noteq> []"
    by (simp add: exampleRequest_facts)
  have other: "\<not> Equal (serverIP (Interface requestForOtherServer)) (IPv4 192 168 99 250)"
    by (simp add: requestForOtherServer_def exampleRequest_facts(3))
      (simp add: Equal_def IPv4_def v4InV6Prefix_def)
  have req: "RequestedIP (Message requestForOtherServer) = Inr (IPv4 192 168 99 4)"
    by (simp add: RequestedIP_def requestForOtherServer_def OptionCode_defs)
  have given: "IPv4 192 168 99 4 \<noteq> []
      \<or> \<not> Equal (ClientIP (BootpHeader (Message requestForOtherServer))) IPv4zero"
    by (simp add: exampleRequest_facts)
  have mine: "equals (LeaseID exampleLease) (newClientIdentifier (Message requestForOtherServer))"
    by (simp add: equals_def exampleLease_def newClientIdentifier_def
        requestForOtherServer_def clientHeader_def)
  have theirs: "\<not> equals (LeaseID otherLease) (newClientIdentifier (Message requestForOtherServer))"
    by (simp add: equals_def otherLease_def newClientIdentifier_def
        requestForOtherServer_def clientHeader_def)
  from handleRequest_other_server[OF sid present other req given, of 1000 leasedPool]
  obtain pool' where
    run: "handleRequest 1000 requestForOtherServer leasedPool = Inr (pool', [])"
    and freed: "\<forall>i lease. Leases leasedPool i = Some lease \<longrightarrow>
                 Leases pool' i =
                   (if equals (LeaseID lease) (newClientIdentifier (Message requestForOtherServer))
                    then None else Some lease)"
    by blast
  from freed exampleRequest_facts(5) mine have "Leases pool' 2 = None" by simp
  moreover from freed exampleRequest_facts(6) theirs have "Leases pool' 3 = Some otherLease"
    by simp
  ultimately show ?thesis using run by blast
qed

section \<open>Reserved leases and the expiry sweep\<close>

text \<open>
  C10. A lease that \<open>handleDiscover\<close> creates (one the pool holds afterwards and did
  not hold before) is \<open>LeaseReserved\<close> and expires at the zero instant; as long as
  a pool holds it unchanged, a sweep at any later instant deletes it.
\<close>

theorem handleDiscover_reserved_lease_expires:
  assumes run: "handleDiscover order rnd msg pool = Some (Inr (pool', sent))"
    and new: "Leases pool' idx = Some lease" "Leases pool idx \<noteq> Some lease"
  shows "State lease = LeaseReserved \<and> Expires lease = zeroTime
         \<and> (\<forall>clock p. Leases p idx = Some lease \<and> Before zeroTime (clock idx) \<longrightarrow>
               Leases (expireOld clock p) idx = None)"
  using assms
  by (auto simp add: handleDiscover_def Let_def expireOld_def
      split: option.splits sum.splits if_splits)

theorem handleDiscover_reserved_lease_expires_witness:
  "\<exists>pool' sent lease.
     handleDiscover [] 0 exampleDiscover examplePool = Some (Inr (pool', sent))
     \<and> Leases pool' 2 = Some lease \<and> Leases examplePool 2 \<noteq> Some lease
     \<and> State lease = LeaseReserved \<and> Expires lease = zeroTime
     \<and> Leases (expireOld (\<lambda>i. 10 * Second) pool') 2 = None"
proof -
  obtain offer where run:
    "handleDiscover [] 0 exampleDiscover examplePool =
       Some (Inr (examplePool\<lparr>Leases := [2 \<mapsto> exampleLease]\<rparr>, [offer]))"
    using handleDiscover_example by blast
  have new: "Leases (examplePool\<lparr>Leases := [2 \<mapsto> exampleLease]\<rparr>) 2 = Some exampleLease"
    "Leases examplePool 2 \<noteq> Some exampleLease"
    by (simp_all add: examplePool_def)
  have later: "Before zeroTime (10 * Second)"
    by (simp add: Before_def zeroTime_def Second_def)
  from handleDiscover_reserved_lease_expires[OF run new]
  have fresh: "State exampleLease = LeaseReserved" "Expires exampleLease = zeroTime"
    and sweep: "\<And>clock p. Leases p 2 = Some exampleLease \<Longrightarrow> Before zeroTime (clock 2) \<Longrightarrow>
                  Leases (expireOld clock p) 2 = None"
    by blast+
  have "Leases (expireOld (\<lambda>i. 10 * Second) (examplePool\<lparr>Leases := [2 \<mapsto> exampleLease]\<rparr>)) 2
      = None"
    by (rule sweep[OF new(1)]) (rule later)
  with run new fresh show ?thesis by blast
qed

end
